theory Spec2Isabelle
  imports Main "HOL-Library.Sublist"
begin

section \<open>JavaScript values and objects\<close>

text \<open>
  The values that travel through the tool server: the primitives, arrays and plain
  objects.  Numbers are the integers (timeouts, limits, pids, exit codes, milliseconds).
  An object is its list of properties in insertion order.
\<close>

datatype js_value =
    JUndefined
  | JNull
  | JBool bool
  | JNum int
  | JStr string
  | JArr "js_value list"
  | JObj "(string \<times> js_value) list"

type_synonym js_object = "(string \<times> js_value) list"

text \<open>ToBoolean: what \<^verbatim>\<open>!v\<close>, \<^verbatim>\<open>v && w\<close> and \<^verbatim>\<open>v || w\<close> test.\<close>

fun truthy :: "js_value \<Rightarrow> bool" where
  "truthy JUndefined = False"
| "truthy JNull = False"
| "truthy (JBool b) = b"
| "truthy (JNum n) = (n \<noteq> 0)"
| "truthy (JStr s) = (s \<noteq> [])"
| "truthy (JArr _) = True"
| "truthy (JObj _) = True"

text \<open>
  Reading a property: \<^verbatim>\<open>obj[k]\<close>, with \<open>None\<close> for a property that is not there.
  The same lists model a \<^verbatim>\<open>Map\<close> and the process environment, so the key and the
  value type are left open.
\<close>

definition obj_get :: "('k \<times> 'v) list \<Rightarrow> 'k \<Rightarrow> 'v option" where
  "obj_get obj k = map_of obj k"

text \<open>
  Writing a property (and \<^verbatim>\<open>Map.prototype.set\<close>): an existing key keeps its position
  and takes the new value, a new key goes to the end.
\<close>

fun obj_set :: "'k \<Rightarrow> 'v \<Rightarrow> ('k \<times> 'v) list \<Rightarrow> ('k \<times> 'v) list" where
  "obj_set k v [] = [(k, v)]"
| "obj_set k v ((k', v') # rest) =
     (if k = k' then (k, v) # rest else (k', v') # obj_set k v rest)"

text \<open>
  The spread \<^verbatim>\<open>{ ...base, ...src }\<close>: the properties of \<open>src\<close> are written onto
  \<open>base\<close> one after the other.
\<close>

definition obj_spread :: "('k \<times> 'v) list \<Rightarrow> ('k \<times> 'v) list \<Rightarrow> ('k \<times> 'v) list" where
  "obj_spread base src = foldl (\<lambda>obj (k, v). obj_set k v obj) base src"

text \<open>
  The idiom \<^verbatim>\<open>...(c && { k: v })\<close> inside an object literal: the property is written
  when \<open>c\<close> is truthy, and a falsy \<open>c\<close> spreads nothing.
\<close>

definition spread_when :: "bool \<Rightarrow> string \<Rightarrow> js_value \<Rightarrow> js_object \<Rightarrow> js_object" where
  "spread_when c k v obj = (if c then obj_set k v obj else obj)"

section \<open>Errors\<close>

text \<open>
  A thrown error.  \<open>is_mcp\<close> is \<^verbatim>\<open>error instanceof McpError\<close>; \<open>mcp_code\<close> is the
  \<^verbatim>\<open>ErrorCode\<close> an \<^verbatim>\<open>McpError\<close> was built with.  The other fields are the properties
  \<^verbatim>\<open>formatError\<close> probes: \<open>code\<close> (an exit status or an errno name), \<open>signal\<close> and
  \<open>killed\<close> as any value, \<open>stdout\<close> and \<open>stderr\<close> as the strings
  \<^verbatim>\<open>child_process.exec\<close> attaches (\<open>None\<close>: the property is not there).
\<close>

datatype error_code = InvalidParams | MethodNotFound | InternalError

record js_error =
  is_mcp :: bool
  mcp_code :: "error_code option"
  message :: string
  stdout :: "string option"
  stderr :: "string option"
  code :: js_value
  signal :: js_value
  killed :: js_value

text \<open>
  \<^verbatim>\<open>new Error(msg)\<close> and \<^verbatim>\<open>new McpError(c, msg)\<close>; the \<open>code\<close> of an
  \<^verbatim>\<open>McpError\<close> is the number of its \<^verbatim>\<open>ErrorCode\<close>.
\<close>

definition Error :: "string \<Rightarrow> js_error" where
  "Error msg = \<lparr>is_mcp = False, mcp_code = None, message = msg, stdout = None,
     stderr = None, code = JUndefined, signal = JUndefined, killed = JUndefined\<rparr>"

fun error_code_number :: "error_code \<Rightarrow> int" where
  "error_code_number InvalidParams = - 32602"
| "error_code_number MethodNotFound = - 32601"
| "error_code_number InternalError = - 32603"

definition McpError :: "error_code \<Rightarrow> string \<Rightarrow> js_error" where
  "McpError c msg = \<lparr>is_mcp = True, mcp_code = Some c, message = msg, stdout = None,
     stderr = None, code = JNum (error_code_number c), signal = JUndefined,
     killed = JUndefined\<rparr>"

text \<open>Truthiness of an optional string property: there and not empty.\<close>

fun truthy_str :: "string option \<Rightarrow> bool" where
  "truthy_str None = False"
| "truthy_str (Some s) = (s \<noteq> [])"

text \<open>What a call does: it returns a value or it throws.\<close>

datatype 'a outcome = Returned 'a | Thrown js_error

section \<open>JSON text\<close>

text \<open>
  \<^verbatim>\<open>JSON.stringify(v, null, 2)\<close> writes a value as JSON text.  A property whose value is
  \<^verbatim>\<open>undefined\<close> is not written, an array element that is \<^verbatim>\<open>undefined\<close> is written as
  \<^verbatim>\<open>null\<close>, and \<^verbatim>\<open>JSON.stringify(undefined)\<close> is \<^verbatim>\<open>undefined\<close> (\<open>None\<close>) instead of a text.
  A JSON text is represented by the value that it spells, which is the value a reader
  of the text gets back from \<^verbatim>\<open>JSON.parse\<close>; white space and indentation are not
  represented.
\<close>

primrec JSON_stringify :: "js_value \<Rightarrow> js_value option" where
  "JSON_stringify JUndefined = None"
| "JSON_stringify JNull = Some JNull"
| "JSON_stringify (JBool b) = Some (JBool b)"
| "JSON_stringify (JNum n) = Some (JNum n)"
| "JSON_stringify (JStr s) = Some (JStr s)"
| "JSON_stringify (JArr vs) =
     Some (JArr (map (\<lambda>r. case r of None \<Rightarrow> JNull | Some j \<Rightarrow> j) (map JSON_stringify vs)))"
| "JSON_stringify (JObj ps) =
     Some (JObj (List.map_filter (\<lambda>(k, r). map_option (Pair k) r)
       (map (map_prod id JSON_stringify) ps)))"

text \<open>The properties that the text of an object has.\<close>

definition json_members :: "js_object \<Rightarrow> js_object" where
  "json_members obj = List.map_filter (\<lambda>(k, v). map_option (Pair k) (JSON_stringify v)) obj"

text \<open>The values with no \<^verbatim>\<open>undefined\<close> anywhere in them.\<close>

primrec json_value :: "js_value \<Rightarrow> bool" where
  "json_value JUndefined = False"
| "json_value JNull = True"
| "json_value (JBool b) = True"
| "json_value (JNum n) = True"
| "json_value (JStr s) = True"
| "json_value (JArr vs) = list_all id (map json_value vs)"
| "json_value (JObj ps) = list_all snd (map (map_prod id json_value) ps)"

section \<open>The dispatch wrapper (base-tool.js)\<close>

text \<open>
  \<^verbatim>\<open>formatSuccess\<close> and \<^verbatim>\<open>formatError\<close> build an object literal, the envelope, and
  return \<^verbatim>\<open>{content: [{type: "text", text: JSON.stringify(envelope, null, 2)}]}\<close>.
  The envelope never leaves the function: the response carries its JSON text only.  The
  model of the response is that text, as the object it spells.
  \<open>executionTime\<close> is the rounded difference of the two clock readings.
\<close>

definition formatSuccess :: "js_object \<Rightarrow> int \<Rightarrow> js_object" where
  "formatSuccess result executionTime =
     json_members
       (obj_spread [(''success'', JBool True), (''execution_time_ms'', JNum executionTime)]
          result)"

definition formatError :: "js_error \<Rightarrow> int \<Rightarrow> js_object" where
  "formatError error executionTime =
     (let o0 = [(''success'', JBool False),
                (''execution_time_ms'', JNum executionTime),
                (''error'', JStr (message error))];
          o1 = spread_when (truthy_str (stdout error)) ''stdout''
                 (JStr (case stdout error of Some s \<Rightarrow> s | None \<Rightarrow> [])) o0;
          o2 = spread_when (truthy_str (stderr error)) ''stderr''
                 (JStr (case stderr error of Some s \<Rightarrow> s | None \<Rightarrow> [])) o1;
          o3 = spread_when (truthy (code error)) ''exit_code'' (code error) o2;
          o4 = spread_when (truthy (signal error)) ''signal'' (signal error) o3
      in json_members (spread_when (truthy (killed error)) ''timeout'' (JBool True) o4))"

text \<open>
  \<^verbatim>\<open>execute\<close>: \<open>run\<close> is the handler of the tool, \<open>Inl\<close> is an error thrown to the
  caller, \<open>Inr\<close> the response returned.
\<close>

definition execute ::
  "(js_object \<Rightarrow> js_object outcome) \<Rightarrow> js_object \<Rightarrow> int \<Rightarrow> js_error + js_object" where
  "execute run args executionTime =
     (case run args of
        Returned result \<Rightarrow> Inr (formatSuccess result executionTime)
      | Thrown error \<Rightarrow>
          if is_mcp error then Inl error
          else Inr (formatError error executionTime))"

section \<open>Command permission (config-manager.js)\<close>

text \<open>
  The three settings \<^verbatim>\<open>isCommandAllowed\<close> reads from the configuration.
\<close>

record config =
  securityMode :: string
  commandWhitelist :: "string list"
  commandBlacklist :: "string list"

text \<open>
  \<^verbatim>\<open>String.prototype.toLowerCase\<close> on the ASCII letters, and
  \<^verbatim>\<open>String.prototype.includes\<close>: \<open>t\<close> occurs in \<open>s\<close> as a contiguous substring.
\<close>

definition lower_char :: "char \<Rightarrow> char" where
  "lower_char c =
     (let n = (of_char c :: nat) in if 65 \<le> n \<and> n \<le> 90 then char_of (n + 32) else c)"

definition toLowerCase :: "string \<Rightarrow> string" where
  "toLowerCase s = map lower_char s"

fun str_includes :: "string \<Rightarrow> string \<Rightarrow> bool" where
  "str_includes [] t = (t = [])"
| "str_includes (c # s) t = (prefix t (c # s) \<or> str_includes s t)"

definition isCommandAllowed :: "config \<Rightarrow> string \<Rightarrow> bool" where
  "isCommandAllowed cfg command =
     (if securityMode cfg = ''strict'' then
        (if length (commandWhitelist cfg) = 0 then False
         else list_ex (\<lambda>pattern. str_includes (toLowerCase command) (toLowerCase pattern))
                (commandWhitelist cfg))
      else if length (commandBlacklist cfg) > 0 then
        \<not> list_ex (\<lambda>pattern. str_includes (toLowerCase command) (toLowerCase pattern))
            (commandBlacklist cfg)
      else True)"

section \<open>Execution options (command-utils.js)\<close>

definition MAX_BUFFER_SIZE :: int where "MAX_BUFFER_SIZE = 1024 * 1024 * 10"
definition DEFAULT_TIMEOUT :: int where "DEFAULT_TIMEOUT = 30000"
definition MAX_TIMEOUT :: int where "MAX_TIMEOUT = 300000"

text \<open>
  The raw options: \<open>None\<close> is a property that was not given (\<^verbatim>\<open>undefined\<close>).  The
  environment is a list of name and value, as \<^verbatim>\<open>process.env\<close> is.
\<close>

record raw_options =
  opt_timeout :: "int option"
  opt_working_directory :: "string option"
  opt_environment :: "(string \<times> string) list option"

record exec_options =
  timeout :: int
  maxBuffer :: int
  env :: "(string \<times> string) list"
  cwd :: "string option"

text \<open>
  \<^verbatim>\<open>options.timeout || DEFAULT_TIMEOUT\<close> takes the default for \<^verbatim>\<open>undefined\<close> and for
  \<open>0\<close>; \<^verbatim>\<open>options.working_directory && { cwd: ... }\<close> sets \<open>cwd\<close> for a non-empty
  string; an environment that is given is spread over \<^verbatim>\<open>process.env\<close>.
\<close>

definition getExecOptions :: "(string \<times> string) list \<Rightarrow> raw_options \<Rightarrow> exec_options" where
  "getExecOptions process_env options =
     \<lparr>timeout = min (case opt_timeout options of
                        None \<Rightarrow> DEFAULT_TIMEOUT
                      | Some t \<Rightarrow> if t \<noteq> 0 then t else DEFAULT_TIMEOUT) MAX_TIMEOUT,
      maxBuffer = MAX_BUFFER_SIZE,
      env = (case opt_environment options of
               Some environment \<Rightarrow> obj_spread process_env environment
             | None \<Rightarrow> process_env),
      cwd = (case opt_working_directory options of
               Some d \<Rightarrow> if d \<noteq> [] then Some d else None
             | None \<Rightarrow> None)\<rparr>"

section \<open>The tool registry (tool-registry.js)\<close>

text \<open>
  A tool object as \<^verbatim>\<open>register\<close> and \<^verbatim>\<open>list\<close> see it: its name, description and input
  schema, and whatever its \<open>execute\<close> property holds: a function (\<open>Method\<close>) or any
  other value (\<open>Value JUndefined\<close> when there is no such property).
\<close>

datatype 'h member = Method 'h | Value js_value


record 'h tool =
  name :: string
  description :: string
  inputSchema :: js_value
  tool_execute :: "'h member"


text \<open>
  The registry is the \<^verbatim>\<open>Map\<close> \<open>this.tools\<close>, in insertion order.  \<^verbatim>\<open>register\<close>
  throws (\<open>Inl\<close>) or returns the registry with the tool set under its name.
\<close>

type_synonym 'h registry = "(string \<times> 'h tool) list"


definition unregister :: "string \<Rightarrow> 'h registry \<Rightarrow> bool \<times> 'h registry" where
  "unregister toolName tools =
     (toolName \<in> set (map fst tools), filter (\<lambda>(k, t). k \<noteq> toolName) tools)"

definition get :: "'h registry \<Rightarrow> string \<Rightarrow> 'h tool option" where
  "get tools toolName = obj_get tools toolName"

definition has :: "'h registry \<Rightarrow> string \<Rightarrow> bool" where
  "has tools toolName = (toolName \<in> set (map fst tools))"


definition getToolNames :: "'h registry \<Rightarrow> string list" where
  "getToolNames tools = map fst tools"



text \<open>
  The nine built-in tool classes, in the order \<^verbatim>\<open>registerDefaultTools\<close> registers them.
  Each instance inherits \<^verbatim>\<open>BaseTool.execute\<close>, so its \<open>execute\<close> is a method; the class
  stands for the handler.  The schema literals of the classes are the parameter \<open>schema\<close>.
\<close>

datatype builtin =
    ExecuteCommandTool
  | ExecuteScriptTool
  | SystemInfoTool
  | ListProcessesTool
  | KillProcessTool
  | FileReadTool
  | FileWriteTool
  | FileOperationsTool
  | DirectoryOperationsTool

fun builtin_name :: "builtin \<Rightarrow> string" where
  "builtin_name ExecuteCommandTool = ''execute_command''"
| "builtin_name ExecuteScriptTool = ''execute_script''"
| "builtin_name SystemInfoTool = ''get_system_info''"
| "builtin_name ListProcessesTool = ''list_processes''"
| "builtin_name KillProcessTool = ''kill_process''"
| "builtin_name FileReadTool = ''file_read''"
| "builtin_name FileWriteTool = ''file_write''"
| "builtin_name FileOperationsTool = ''file_operations''"
| "builtin_name DirectoryOperationsTool = ''directory_operations''"



definition default_classes :: "builtin list" where
  "default_classes =
     [ExecuteCommandTool, ExecuteScriptTool, SystemInfoTool, ListProcessesTool,
      KillProcessTool, FileReadTool, FileWriteTool, FileOperationsTool,
      DirectoryOperationsTool]"




section \<open>Paths (the POSIX flavour of Node's path module)\<close>

text \<open>
  \<^verbatim>\<open>String.prototype.split\<close> on one separator character, and \<^verbatim>\<open>Array.prototype.join\<close>.
  Splitting the empty string gives one empty piece.
\<close>

fun split_on :: "char \<Rightarrow> string \<Rightarrow> string list" where
  "split_on sep [] = [[]]"
| "split_on sep (c # cs) =
     (if c = sep then [] # split_on sep cs
      else (case split_on sep cs of
              piece # pieces \<Rightarrow> (c # piece) # pieces
            | [] \<Rightarrow> [[c]]))"

fun join :: "string \<Rightarrow> string list \<Rightarrow> string" where
  "join sep [] = []"
| "join sep [piece] = piece"
| "join sep (piece # pieces) = piece @ sep @ join sep pieces"

text \<open>
  \<^verbatim>\<open>normalizeString\<close>, segment by segment: an empty segment and \<open>.\<close> are dropped,
  \<open>..\<close> removes the segment before it, and where there is none it is dropped, or kept
  when \<open>allowAboveRoot\<close> is set; \<open>res\<close> is the list of the segments kept so far.
\<close>

definition normalize_step :: "bool \<Rightarrow> string list \<Rightarrow> string \<Rightarrow> string list" where
  "normalize_step allowAboveRoot res segment =
     (if segment = [] \<or> segment = ''.'' then res
      else if segment = ''..'' then
        (if res \<noteq> [] \<and> last res \<noteq> ''..'' then butlast res
         else if allowAboveRoot then res @ [''..'']
         else res)
      else res @ [segment])"

definition normalizeString :: "string \<Rightarrow> bool \<Rightarrow> string" where
  "normalizeString path allowAboveRoot =
     join ''/'' (foldl (normalize_step allowAboveRoot) [] (split_on CHR ''/'' path))"

text \<open>
  \<^verbatim>\<open>path.resolve(filePath)\<close> with the working directory \<open>process_cwd\<close> of the process: the
  argument, then the working directory unless the argument is absolute; an empty string
  is skipped.
\<close>

definition resolve :: "string \<Rightarrow> string \<Rightarrow> string" where
  "resolve process_cwd filePath =
     (let r1 = (if filePath = [] then [] else filePath @ ''/'');
          abs1 = (filePath \<noteq> [] \<and> hd filePath = CHR ''/'');
          r2 = (if abs1 \<or> process_cwd = [] then r1 else process_cwd @ ''/'' @ r1);
          resolvedAbsolute = (abs1 \<or> (process_cwd \<noteq> [] \<and> hd process_cwd = CHR ''/''));
          resolvedPath = normalizeString r2 (\<not> resolvedAbsolute)
      in if resolvedAbsolute then ''/'' @ resolvedPath
         else if resolvedPath \<noteq> [] then resolvedPath
         else ''.'')"

definition normalize :: "string \<Rightarrow> string" where
  "normalize path =
     (if path = [] then ''.''
      else
        (let isAbsolute = (hd path = CHR ''/'');
             trailingSeparator = (last path = CHR ''/'');
             p1 = normalizeString path (\<not> isAbsolute)
         in if p1 = [] then
              (if isAbsolute then ''/'' else if trailingSeparator then ''./'' else ''.'')
            else
              (let p2 = (if trailingSeparator then p1 @ ''/'' else p1)
               in if isAbsolute then ''/'' @ p2 else p2)))"

text \<open>
  A list of segments as \<^verbatim>\<open>resolve\<close> leaves it: no segment is empty, \<open>.\<close> or \<open>..\<close>,
  and none contains a separator.
\<close>

definition clean :: "string list \<Rightarrow> bool" where
  "clean segs =
     (\<forall>seg \<in> set segs. seg \<noteq> [] \<and> seg \<noteq> ''.'' \<and> seg \<noteq> ''..'' \<and> CHR ''/'' \<notin> set seg)"

section \<open>The path guard (file-utils.js)\<close>

text \<open>
  \<open>homePath\<close> is \<^verbatim>\<open>homedir()\<close>.  \<^verbatim>\<open>startsWith\<close> is the prefix order on strings.
\<close>

definition validateAndNormalizePath :: "string \<Rightarrow> string \<Rightarrow> string \<Rightarrow> js_error + string" where
  "validateAndNormalizePath homePath process_cwd filePath =
     (if filePath = [] then Inl (Error ''Path must be a non-empty string'')
      else
        (let normalizedPath = normalize (resolve process_cwd filePath)
         in if str_includes normalizedPath ''..'' \<and> \<not> prefix homePath normalizedPath
            then Inl (Error ''Path traversal detected - access denied'')
            else Inr normalizedPath))"

section \<open>The file system\<close>

text \<open>
  What the handlers observe of the disk: which paths exist, and whether a path is a
  directory or something else (\<open>File\<close>).  \<^verbatim>\<open>existsSync\<close> and \<^verbatim>\<open>statSync\<close> read it.
  An error of the operating system carries its errno name in \<open>code\<close>.
\<close>

datatype node = File | Directory

type_synonym fs = "string \<Rightarrow> node option"

definition existsSync :: "fs \<Rightarrow> string \<Rightarrow> bool" where
  "existsSync files p = (files p \<noteq> None)"

definition fs_error :: "string \<Rightarrow> string \<Rightarrow> js_error" where
  "fs_error errno msg = (Error (errno @ '': '' @ msg))\<lparr>code := JStr errno\<rparr>"

text \<open>
  The proper ancestors of a normalized absolute path, outermost first: \<open>/a\<close> and
  \<open>/a/b\<close> for \<open>/a/b/c\<close>.  The root is always there.
\<close>

definition ancestors :: "string \<Rightarrow> string list" where
  "ancestors p =
     (let segments = filter (\<lambda>seg. seg \<noteq> []) (split_on CHR ''/'' p)
      in map (\<lambda>n. ''/'' @ join ''/'' (take n segments)) [1..<length segments])"

text \<open>
  \<^verbatim>\<open>mkdirSync(p, { recursive })\<close>.  \<open>fault\<close> is a failure the model does not derive from
  the tree (permissions, a full disk).  Otherwise the recursive form makes every missing
  directory down to \<open>p\<close> and fails when something on the way is not a directory; the
  plain form needs \<open>p\<close> to be missing and its parent to be a directory.
\<close>

definition mkdirSync :: "js_error option \<Rightarrow> fs \<Rightarrow> string \<Rightarrow> bool \<Rightarrow> js_error + fs" where
  "mkdirSync fault files p recursive =
     (case fault of
        Some e \<Rightarrow> Inl e
      | None \<Rightarrow>
          if recursive then
            (if list_ex (\<lambda>a. files a = Some File) (ancestors p @ [p])
             then Inl (fs_error (if files p = Some File then ''EEXIST'' else ''ENOTDIR'')
                        (''mkdir '' @ p))
             else Inr (\<lambda>q. if q \<in> set (ancestors p @ [p]) then Some Directory else files q))
          else
            (if files p \<noteq> None then Inl (fs_error ''EEXIST'' (''mkdir '' @ p))
             else if ancestors p = [] \<or> files (last (ancestors p)) = Some Directory
               then Inr (files(p \<mapsto> Directory))
             else if files (last (ancestors p)) = Some File
               then Inl (fs_error ''ENOTDIR'' (''mkdir '' @ p))
             else Inl (fs_error ''ENOENT'' (''mkdir '' @ p))))"

text \<open>
  \<^verbatim>\<open>getFileStats\<close>: the kind flags of the \<^verbatim>\<open>statSync\<close> result; the size, the times
  and the permission bits are not part of the model.  A failing \<^verbatim>\<open>statSync\<close> is
  rethrown as a plain error.
\<close>

definition getFileStats :: "fs \<Rightarrow> string \<Rightarrow> js_error + js_object" where
  "getFileStats files filePath =
     (case files filePath of
        None \<Rightarrow>
          Inl (Error (''Failed to get file stats: ENOENT: no such file or directory, stat ''
                 @ filePath))
      | Some n \<Rightarrow>
          Inr [(''is_file'', JBool (n = File)),
               (''is_directory'', JBool (n = Directory)),
               (''is_symbolic_link'', JBool False)])"

section \<open>Directory creation (file-utils.js, directory-operations.js)\<close>

text \<open>
  \<^verbatim>\<open>createDirectory(dirPath, { recursive })\<close>: the outcome and the file system after the
  call.  \<open>recursive\<close> is \<open>None\<close> when the option is not given, and then it is \<open>true\<close>.
\<close>

definition createDirectory ::
  "string \<Rightarrow> string \<Rightarrow> js_error option \<Rightarrow> string \<Rightarrow> bool option \<Rightarrow> fs
     \<Rightarrow> js_object outcome \<times> fs" where
  "createDirectory homePath process_cwd fault dirPath recursive_opt files =
     (let recursive = (case recursive_opt of None \<Rightarrow> True | Some r \<Rightarrow> r)
      in case validateAndNormalizePath homePath process_cwd dirPath of
           Inl e \<Rightarrow> (Thrown e, files)
         | Inr normalizedPath \<Rightarrow>
             if existsSync files normalizedPath then
               (if files normalizedPath = Some Directory then
                  (Returned [(''operation'', JStr ''create''),
                             (''directory_path'', JStr normalizedPath),
                             (''created'', JBool False),
                             (''existed'', JBool True)], files)
                else
                  (Thrown (Error (''Path exists but is not a directory: '' @ normalizedPath)),
                   files))
             else
               (case mkdirSync fault files normalizedPath recursive of
                  Inl e \<Rightarrow> (Thrown e, files)
                | Inr files' \<Rightarrow>
                    (case getFileStats files' normalizedPath of
                       Inl e \<Rightarrow> (Thrown e, files')
                     | Inr stats \<Rightarrow>
                         (Returned [(''operation'', JStr ''create''),
                                    (''directory_path'', JStr normalizedPath),
                                    (''created'', JBool True),
                                    (''existed'', JBool False),
                                    (''stats'', JObj stats)], files'))))"

text \<open>
  The arguments of \<^verbatim>\<open>DirectoryOperationsTool.run\<close>; \<open>None\<close> is an argument that was
  not given.
\<close>

record dir_args =
  arg_operation :: "string option"
  arg_path :: "string option"
  arg_recursive :: "bool option"
  arg_include_hidden :: "bool option"
  arg_detailed :: "bool option"
  arg_force :: "bool option"

definition DIRECTORY_OPERATIONS :: "string list" where
  "DIRECTORY_OPERATIONS = [''create'', ''list'', ''delete'', ''exists'']"

definition js_bool_opt :: "bool option \<Rightarrow> js_value" where
  "js_bool_opt b = (case b of None \<Rightarrow> JUndefined | Some v \<Rightarrow> JBool v)"

text \<open>
  The \<^verbatim>\<open>catch\<close> of \<^verbatim>\<open>run\<close>: an error whose \<open>code\<close> is one of six errno names becomes
  an \<^verbatim>\<open>McpError\<close>, every other error is thrown again as it is.
\<close>

definition convert_fs_error :: "string \<Rightarrow> js_error \<Rightarrow> js_error" where
  "convert_fs_error p error =
     (if code error = JStr ''ENOENT'' then McpError InvalidParams (''Directory not found: '' @ p)
      else if code error = JStr ''EACCES'' then McpError InvalidParams (''Permission denied: '' @ p)
      else if code error = JStr ''ENOTDIR''
        then McpError InvalidParams (''Path is not a directory: '' @ p)
      else if code error = JStr ''EEXIST''
        then McpError InvalidParams (''Directory already exists: '' @ p)
      else if code error = JStr ''ENOTEMPTY''
        then McpError InvalidParams (''Directory not empty: '' @ p
               @ ''. Use recursive: true to delete non-empty directories.'')
      else if code error = JStr ''ENOSPC'' then McpError InvalidParams ''No space left on device''
      else error)"

text \<open>
  \<^verbatim>\<open>DirectoryOperationsTool.run\<close>.  The sub-operations \<open>list\<close>, \<open>delete\<close> and
  \<open>exists\<close> (with the listing summary) enter as the parameter \<open>other_operations\<close>;
  \<open>create\<close> is \<^verbatim>\<open>createDirectory\<close> with \<open>recursive\<close> defaulting to \<open>true\<close>.
\<close>

definition DirectoryOperationsTool_run ::
  "string \<Rightarrow> string \<Rightarrow> js_error option
     \<Rightarrow> (string \<Rightarrow> dir_args \<Rightarrow> fs \<Rightarrow> js_object outcome \<times> fs)
     \<Rightarrow> dir_args \<Rightarrow> fs \<Rightarrow> js_object outcome \<times> fs" where
  "DirectoryOperationsTool_run homePath process_cwd fault other_operations args files =
     (case arg_operation args of
        None \<Rightarrow>
          (Thrown (McpError InvalidParams
             ''Invalid operation. Must be one of: create, list, delete, exists''), files)
      | Some operation \<Rightarrow>
          if operation = [] \<or> operation \<notin> set DIRECTORY_OPERATIONS then
            (Thrown (McpError InvalidParams
               ''Invalid operation. Must be one of: create, list, delete, exists''), files)
          else
            (case arg_path args of
               None \<Rightarrow> (Thrown (McpError InvalidParams ''path must be a non-empty string''), files)
             | Some p \<Rightarrow>
                 if p = [] then
                   (Thrown (McpError InvalidParams ''path must be a non-empty string''), files)
                 else
                   (case (if operation = ''create''
                          then createDirectory homePath process_cwd fault p
                                 (Some (case arg_recursive args of None \<Rightarrow> True | Some r \<Rightarrow> r))
                                 files
                          else other_operations operation args files) of
                      (Returned result, files') \<Rightarrow>
                        (Returned
                           (obj_set ''options''
                              (JObj [(''recursive'', js_bool_opt (arg_recursive args)),
                                     (''include_hidden'',
                                      JBool (case arg_include_hidden args of
                                               None \<Rightarrow> False | Some b \<Rightarrow> b)),
                                     (''detailed'',
                                      JBool (case arg_detailed args of
                                               None \<Rightarrow> True | Some b \<Rightarrow> b)),
                                     (''force'',
                                      JBool (case arg_force args of
                                               None \<Rightarrow> False | Some b \<Rightarrow> b))])
                              (obj_set ''requested_operation'' (JStr operation) result)),
                         files')
                    | (Thrown error, files') \<Rightarrow> (Thrown (convert_fs_error p error), files'))))"

section \<open>Script execution (constants.js, execute-script.js)\<close>

text \<open>
  The two lookup tables.  A command template puts the path between double quotes.
\<close>

definition dquote :: string where
  "dquote = [CHR 0x22]"

definition SCRIPT_EXTENSIONS :: "(string \<times> string) list" where
  "SCRIPT_EXTENSIONS =
     [(''bash'', ''.sh''), (''sh'', ''.sh''), (''powershell'', ''.ps1''), (''cmd'', ''.bat''),
      (''python'', ''.py''), (''python3'', ''.py''), (''node'', ''.js''), (''perl'', ''.pl''),
      (''ruby'', ''.rb'')]"

definition SCRIPT_COMMANDS :: "(string \<times> (string \<Rightarrow> string)) list" where
  "SCRIPT_COMMANDS =
     [(''bash'', \<lambda>p. ''bash '' @ dquote @ p @ dquote),
      (''sh'', \<lambda>p. ''sh '' @ dquote @ p @ dquote),
      (''powershell'', \<lambda>p. ''powershell -ExecutionPolicy Bypass -File '' @ dquote @ p @ dquote),
      (''cmd'', \<lambda>p. ''cmd /c '' @ dquote @ p @ dquote),
      (''python'', \<lambda>p. ''python '' @ dquote @ p @ dquote),
      (''python3'', \<lambda>p. ''python3 '' @ dquote @ p @ dquote),
      (''node'', \<lambda>p. ''node '' @ dquote @ p @ dquote),
      (''perl'', \<lambda>p. ''perl '' @ dquote @ p @ dquote),
      (''ruby'', \<lambda>p. ''ruby '' @ dquote @ p @ dquote)]"

definition TIMEOUTS_SCRIPT :: int where
  "TIMEOUTS_SCRIPT = 60000"

text \<open>
  \<^verbatim>\<open>table[key]\<close> on an object literal finds the table's own entry, or else a member
  that every object inherits from \<^verbatim>\<open>Object.prototype\<close>, or nothing.
\<close>

definition Object_prototype_members :: "string list" where
  "Object_prototype_members =
     [''constructor'', ''__defineGetter__'', ''__defineSetter__'', ''hasOwnProperty'',
      ''__lookupGetter__'', ''__lookupSetter__'', ''isPrototypeOf'', ''propertyIsEnumerable'',
      ''toString'', ''valueOf'', ''__proto__'', ''toLocaleString'']"

datatype 'a lookup = Own 'a | Inherited string | Absent

definition js_lookup :: "(string \<times> 'a) list \<Rightarrow> string \<Rightarrow> 'a lookup" where
  "js_lookup table k =
     (case map_of table k of
        Some v \<Rightarrow> Own v
      | None \<Rightarrow> if k \<in> set Object_prototype_members then Inherited k else Absent)"

text \<open>
  The world a script invocation acts on: the disk, the lines written with
  \<^verbatim>\<open>console.error\<close>, and the calls made to the operating system, in order.
\<close>

datatype syscall =
    Mkdtemp string
  | WriteFile string string
  | Exec string
  | Unlink string

record world =
  disk :: fs
  console :: "string list"
  calls :: "syscall list"

text \<open>
  What the invocation does not decide: the directory \<^verbatim>\<open>mkdtempSync\<close> creates or its
  failure; a failure of \<^verbatim>\<open>writeFileSync\<close>, and whether the file is there nonetheless;
  what the child process returns and does to the disk; a failure of \<^verbatim>\<open>unlinkSync\<close>
  on a file that is there; the process's directory and environment; and, for a table
  key that names an inherited member, the text that member renders to and what calling
  it on the script path gives.
\<close>

record script_os =
  os_tmpdir :: string
  os_mkdtemp :: "js_error + string"
  os_write_fault :: "(js_error \<times> bool) option"
  os_exec :: "string \<Rightarrow> exec_options \<Rightarrow> fs \<Rightarrow> (js_error + string \<times> string) \<times> fs"
  os_unlink_fault :: "js_error option"
  os_cwd :: string
  os_env :: "(string \<times> string) list"
  os_member_text :: "string \<Rightarrow> string"
  os_member_call :: "string \<Rightarrow> string \<Rightarrow> js_error + string"

text \<open>\<^verbatim>\<open>path.join(a, b)\<close>.\<close>

definition path_join :: "string \<Rightarrow> string \<Rightarrow> string" where
  "path_join a b =
     (let joined = (if a = [] then b else if b = [] then a else a @ ''/'' @ b)
      in if joined = [] then ''.'' else normalize joined)"

text \<open>
  \<^verbatim>\<open>unlinkSync\<close>: a missing path and a directory cannot be unlinked; a file is removed
  unless the operating system refuses.
\<close>

definition unlinkSync :: "js_error option \<Rightarrow> fs \<Rightarrow> string \<Rightarrow> js_error + fs" where
  "unlinkSync fault files p =
     (case files p of
        None \<Rightarrow> Inl (fs_error ''ENOENT'' (''no such file or directory, unlink '' @ p))
      | Some Directory \<Rightarrow> Inl (fs_error ''EISDIR'' (''illegal operation on a directory, unlink '' @ p))
      | Some File \<Rightarrow>
          (case fault of
             Some e \<Rightarrow> Inl e
           | None \<Rightarrow> Inr (files(p := None))))"

text \<open>
  The arguments of \<^verbatim>\<open>ExecuteScriptTool.run\<close>.  An interpreter that is not given
  behaves as the string \<open>undefined\<close>, which is in neither table.
\<close>

record script_args =
  arg_script_content :: "string option"
  arg_interpreter :: string
  arg_working_directory :: "string option"
  arg_timeout :: "int option"

definition script_extension :: "script_os \<Rightarrow> string \<Rightarrow> string" where
  "script_extension os interpreter =
     (case js_lookup SCRIPT_EXTENSIONS interpreter of
        Own extension \<Rightarrow> extension
      | Inherited m \<Rightarrow> os_member_text os m
      | Absent \<Rightarrow> ''.txt'')"

definition script_tempFile :: "script_os \<Rightarrow> string \<Rightarrow> string \<Rightarrow> string" where
  "script_tempFile os interpreter tempDir =
     path_join tempDir (''script'' @ script_extension os interpreter)"

definition buildScriptCommand :: "script_os \<Rightarrow> string \<Rightarrow> string \<Rightarrow> js_error + string" where
  "buildScriptCommand os interpreter scriptPath =
     (case js_lookup SCRIPT_COMMANDS interpreter of
        Own commandBuilder \<Rightarrow> Inr (commandBuilder scriptPath)
      | Inherited m \<Rightarrow> os_member_call os m scriptPath
      | Absent \<Rightarrow> Inl (McpError InvalidParams (''Unsupported interpreter: '' @ interpreter)))"

text \<open>A call to the operating system is noted in the world.\<close>

definition note_call :: "syscall \<Rightarrow> world \<Rightarrow> world" where
  "note_call c w = w\<lparr>calls := calls w @ [c]\<rparr>"

text \<open>
  The \<^verbatim>\<open>finally\<close> block, entered with \<open>tempFile\<close> set: \<^verbatim>\<open>unlinkSync\<close> inside its own
  \<^verbatim>\<open>try\<close>, a failure written to the console.
\<close>

definition cleanup :: "script_os \<Rightarrow> string \<Rightarrow> world \<Rightarrow> world" where
  "cleanup os tempFile w =
     (let w1 = note_call (Unlink tempFile) w
      in case unlinkSync (os_unlink_fault os) (disk w1) tempFile of
           Inl cleanupError \<Rightarrow>
             w1\<lparr>console := console w1
                    @ [''Failed to cleanup temp file: '' @ message cleanupError]\<rparr>
         | Inr files' \<Rightarrow> w1\<lparr>disk := files'\<rparr>)"

text \<open>
  \<^verbatim>\<open>ExecuteScriptTool.run\<close>: the outcome and the world after the invocation, in the
  order of the statements of the \<^verbatim>\<open>try\<close> block, last stage first.  \<open>run_exec\<close> is
  the part from \<^verbatim>\<open>getExecOptions\<close> on, with the command built (\<open>script_execOptions\<close>
  is that call, the timeout argument defaulting to \<^verbatim>\<open>TIMEOUTS.SCRIPT\<close>); \<open>run_command\<close> the
  part from \<^verbatim>\<open>buildScriptCommand\<close> on, with the file written; \<open>run_write\<close> the part
  from the extension lookup on, with the temporary directory made.  From \<open>run_write\<close>
  on \<open>tempFile\<close> is set, and every way out passes through the \<^verbatim>\<open>finally\<close> block;
  while \<open>tempFile\<close> is still \<^verbatim>\<open>null\<close> that block does nothing.
\<close>

definition script_execOptions :: "script_os \<Rightarrow> script_args \<Rightarrow> exec_options" where
  "script_execOptions os args =
     getExecOptions (os_env os)
       \<lparr>opt_timeout = (case arg_timeout args of
                         None \<Rightarrow> Some TIMEOUTS_SCRIPT
                       | Some t \<Rightarrow> Some t),
        opt_working_directory = arg_working_directory args,
        opt_environment = None\<rparr>"

definition run_exec ::
  "script_os \<Rightarrow> script_args \<Rightarrow> string \<Rightarrow> string \<Rightarrow> world \<Rightarrow> js_object outcome \<times> world" where
  "run_exec os args tempFile command w =
     (let execOptions = script_execOptions os args;
          w5 = note_call (Exec command) w
      in case os_exec os command execOptions (disk w5) of
           (Inl e, files') \<Rightarrow> (Thrown e, cleanup os tempFile (w5\<lparr>disk := files'\<rparr>))
         | (Inr (out, err), files') \<Rightarrow>
             (Returned
                [(''interpreter'', JStr (arg_interpreter args)),
                 (''working_directory'',
                  JStr (case arg_working_directory args of
                          None \<Rightarrow> os_cwd os
                        | Some d \<Rightarrow> if d \<noteq> [] then d else os_cwd os)),
                 (''stdout'', JStr out),
                 (''stderr'', JStr err),
                 (''exit_code'', JNum 0)],
              cleanup os tempFile (w5\<lparr>disk := files'\<rparr>)))"

definition run_command ::
  "script_os \<Rightarrow> script_args \<Rightarrow> string \<Rightarrow> world \<Rightarrow> js_object outcome \<times> world" where
  "run_command os args tempFile w =
     (case buildScriptCommand os (arg_interpreter args) tempFile of
        Inl e \<Rightarrow> (Thrown e, cleanup os tempFile w)
      | Inr command \<Rightarrow> run_exec os args tempFile command w)"

definition run_write ::
  "script_os \<Rightarrow> script_args \<Rightarrow> string \<Rightarrow> string \<Rightarrow> world \<Rightarrow> js_object outcome \<times> world" where
  "run_write os args script_content tempDir w =
     (let tempFile = script_tempFile os (arg_interpreter args) tempDir;
          w3 = note_call (WriteFile tempFile script_content) w
      in case os_write_fault os of
           Some (e, created) \<Rightarrow>
             (Thrown e,
              cleanup os tempFile
                (if created then w3\<lparr>disk := (disk w3)(tempFile \<mapsto> File)\<rparr> else w3))
         | None \<Rightarrow>
             run_command os args tempFile (w3\<lparr>disk := (disk w3)(tempFile \<mapsto> File)\<rparr>))"

definition ExecuteScriptTool_run ::
  "script_os \<Rightarrow> script_args \<Rightarrow> world \<Rightarrow> js_object outcome \<times> world" where
  "ExecuteScriptTool_run os args w =
     (case arg_script_content args of
        None \<Rightarrow>
          (Thrown (McpError InvalidParams ''Script content must be a non-empty string''), w)
      | Some script_content \<Rightarrow>
          if script_content = [] then
            (Thrown (McpError InvalidParams ''Script content must be a non-empty string''), w)
          else
            (let w1 = note_call (Mkdtemp (path_join (os_tmpdir os) ''claude-terminal-'')) w
             in case os_mkdtemp os of
                  Inl e \<Rightarrow> (Thrown e, w1)
                | Inr tempDir \<Rightarrow>
                    run_write os args script_content tempDir
                      (w1\<lparr>disk := (disk w1)(tempDir \<mapsto> Directory)\<rparr>)))"

section \<open>Process listing (process-manager.js)\<close>















text \<open>
  \<^verbatim>\<open>xs.slice(0, e)\<close>: the first \<open>e\<close> elements, and for a negative \<open>e\<close> all but the
  last \<open>- e\<close>.
\<close>

definition js_slice0 :: "'a list \<Rightarrow> int \<Rightarrow> 'a list" where
  "js_slice0 xs e = (if 0 \<le> e then take (nat e) xs else take (length xs - nat (- e)) xs)"






section \<open>Properties of objects\<close>

lemma obj_get_obj_set:
  "obj_get (obj_set k v obj) k' = (if k' = k then Some v else obj_get obj k')"
  by (induction obj) (auto simp: obj_get_def)

lemma obj_get_spread_when:
  "obj_get (spread_when c k v obj) k' =
     (if c \<and> k' = k then Some v else obj_get obj k')"
  by (simp add: spread_when_def obj_get_obj_set)

lemma obj_get_foldl_set:
  "obj_get (foldl (\<lambda>obj (k, v). obj_set k v obj) base src) k =
     (case map_of (rev src) k of Some v \<Rightarrow> Some v | None \<Rightarrow> obj_get base k)"
proof (induction src arbitrary: base)
  case Nil
  show ?case by simp
next
  case (Cons p src)
  obtain k' v' where p: "p = (k', v')" by (cases p)
  show ?case
    by (simp add: Cons.IH p obj_get_obj_set map_add_def split: option.splits)
qed

lemma obj_get_obj_spread:
  "obj_get (obj_spread base src) k =
     (case map_of (rev src) k of Some v \<Rightarrow> Some v | None \<Rightarrow> obj_get base k)"
  by (simp add: obj_spread_def obj_get_foldl_set)

section \<open>JSON text: what is written\<close>

lemma map_fst_obj_set:
  "map fst (obj_set k v m) = (if k \<in> set (map fst m) then map fst m else map fst m @ [k])"
  by (induction m) (force split: if_splits)+

lemma distinct_obj_set:
  "distinct (map fst m) \<Longrightarrow> distinct (map fst (obj_set k v m))"
  by (simp add: map_fst_obj_set)

lemma distinct_spread_when:
  "distinct (map fst m) \<Longrightarrow> distinct (map fst (spread_when c k v m))"
  by (simp add: spread_when_def distinct_obj_set)

lemma distinct_foldl_set:
  "distinct (map fst base) \<Longrightarrow>
     distinct (map fst (foldl (\<lambda>obj (k, v). obj_set k v obj) base src))"
proof (induction src arbitrary: base)
  case Nil
  then show ?case by simp
next
  case (Cons p src)
  obtain k v where p: "p = (k, v)" by (cases p)
  show ?case
    by (simp add: p Cons.IH distinct_obj_set Cons.prems)
qed

lemma distinct_obj_spread:
  "distinct (map fst base) \<Longrightarrow> distinct (map fst (obj_spread base src))"
  by (simp add: obj_spread_def distinct_foldl_set)

lemma JSON_stringify_truthy: "truthy v \<Longrightarrow> \<exists>j. JSON_stringify v = Some j"
  by (cases v) simp_all

lemma JSON_stringify_JObj: "JSON_stringify (JObj ps) = Some (JObj (json_members ps))"
proof -
  have "List.map_filter (\<lambda>(k, r). map_option (Pair k) r) (map (map_prod id JSON_stringify) ps)
      = json_members ps"
    by (induction ps) (auto simp: json_members_def List.map_filter_simps split: option.splits)
  then show ?thesis by simp
qed

lemma keys_json_members: "k \<notin> fst ` set obj \<Longrightarrow> obj_get (json_members obj) k = None"
  by (induction obj)
     (auto simp: json_members_def obj_get_def List.map_filter_simps split: option.splits)

lemma obj_get_json_members:
  "distinct (map fst obj) \<Longrightarrow>
     obj_get (json_members obj) k =
       (case obj_get obj k of None \<Rightarrow> None | Some v \<Rightarrow> JSON_stringify v)"
proof (induction obj)
  case Nil
  show ?case by (simp add: json_members_def obj_get_def List.map_filter_simps)
next
  case (Cons p obj)
  obtain k' v' where p: "p = (k', v')" by (cases p)
  have d: "distinct (map fst obj)" and n: "k' \<notin> fst ` set obj"
    using Cons.prems by (simp_all add: p)
  have c: "json_members ((k', v') # obj) =
      (case JSON_stringify v' of None \<Rightarrow> json_members obj
       | Some j \<Rightarrow> (k', j) # json_members obj)"
    by (simp add: json_members_def List.map_filter_simps split: option.splits)
  show ?case
  proof (cases "k = k'")
    case True
    have "obj_get (json_members obj) k' = None" by (rule keys_json_members [OF n])
    then show ?thesis
      by (simp add: c True p obj_get_def split: option.splits)
  next
    case False
    then show ?thesis
      using Cons.IH [OF d] by (simp add: c p obj_get_def split: option.splits)
  qed
qed

text \<open>A value with no \<^verbatim>\<open>undefined\<close> in it is written as it is.\<close>

lemma JSON_stringify_json_value: "json_value v \<Longrightarrow> JSON_stringify v = Some v"
proof (induction v)
  case (JArr vs)
  have "map (\<lambda>r. case r of None \<Rightarrow> JNull | Some j \<Rightarrow> j) (map JSON_stringify vs) = vs"
    using JArr by (induction vs) (auto simp: list_all_iff)
  then show ?case by simp
next
  case (JObj ps)
  have a: "list_all (\<lambda>p. JSON_stringify (snd p) = Some (snd p)) ps"
    using JObj by (fastforce simp: list_all_iff)
  have "List.map_filter (\<lambda>(k, r). map_option (Pair k) r) (map (map_prod id JSON_stringify) ps)
      = ps"
    using a by (induction ps) (auto simp: List.map_filter_simps)
  then show ?case by simp
qed simp_all

section \<open>The dispatch wrapper: envelopes\<close>

lemma obj_get_formatError:
  "obj_get (formatError e t) k =
     (if k = ''timeout'' \<and> truthy (killed e) then Some (JBool True)
      else if k = ''signal'' \<and> truthy (signal e) then JSON_stringify (signal e)
      else if k = ''exit_code'' \<and> truthy (code e) then JSON_stringify (code e)
      else if k = ''stderr'' \<and> truthy_str (stderr e)
        then Some (JStr (case stderr e of Some s \<Rightarrow> s | None \<Rightarrow> []))
      else if k = ''stdout'' \<and> truthy_str (stdout e)
        then Some (JStr (case stdout e of Some s \<Rightarrow> s | None \<Rightarrow> []))
      else if k = ''success'' then Some (JBool False)
      else if k = ''execution_time_ms'' then Some (JNum t)
      else if k = ''error'' then Some (JStr (message e))
      else None)"
  by (simp add: formatError_def Let_def obj_get_json_members distinct_spread_when
        obj_get_spread_when)
     (simp add: obj_get_def)

lemma obj_get_formatSuccess:
  "obj_get (formatSuccess result t) k =
     (case map_of (rev result) k of
        Some v \<Rightarrow> JSON_stringify v
      | None \<Rightarrow>
          if k = ''success'' then Some (JBool True)
          else if k = ''execution_time_ms'' then Some (JNum t)
          else None)"
proof (cases "map_of (rev result) k")
  case None
  then show ?thesis
    by (simp add: formatSuccess_def obj_get_json_members distinct_obj_spread obj_get_obj_spread)
       (simp add: obj_get_def)
next
  case (Some v)
  then show ?thesis
    by (simp add: formatSuccess_def obj_get_json_members distinct_obj_spread obj_get_obj_spread)
qed

text \<open>
  C1, as stated, fails on the code.  A command that exits with status 3 and prints
  nothing throws an error that carries \<open>stdout\<close> and \<open>stderr\<close> (both the empty string):
  the response has neither field.  And the response to a handler whose result has a
  \<open>success\<close> property of its own carries that value, not \<open>true\<close>.
\<close>

theorem execute_present_counterexample:
  "execute (\<lambda>args. Thrown \<lparr>is_mcp = False, mcp_code = None,
       message = ''Command failed: exit 3'', stdout = Some [], stderr = Some [],
       code = JNum 3, signal = JNull, killed = JBool False\<rparr>) [] 12
     = Inr [(''success'', JBool False), (''execution_time_ms'', JNum 12),
            (''error'', JStr ''Command failed: exit 3''), (''exit_code'', JNum 3)]
   \<and> execute (\<lambda>args. Returned [(''success'', JBool False)]) [] 12
     = Inr [(''success'', JBool False), (''execution_time_ms'', JNum 12)]"
  by (simp add: execute_def formatError_def formatSuccess_def obj_spread_def
        spread_when_def json_members_def List.map_filter_simps)

text \<open>
  C1, amended: \<^verbatim>\<open>BaseTool.execute\<close> is two-tier, for every handler \<open>run\<close> and every
  argument object.
  \<^item> When the handler returns, the wrapper returns a response whose JSON text is the
    envelope \<open>{success: true, execution_time_ms}\<close> merged with the handler's result.
    Every property of the result under another name than these two is in the text with
    the result's value as JSON writes it (\<open>map_of (rev result)\<close> reads the binding written
    last): a value with no \<^verbatim>\<open>undefined\<close> in it is there as it is, and a property whose
    value is \<^verbatim>\<open>undefined\<close> is not in the text.  The text has no other property, and
    \<open>success = true\<close> and the elapsed milliseconds are in it whenever the result has no
    property of that name.
  \<^item> When the handler throws an \<^verbatim>\<open>McpError\<close>, the wrapper throws that same error.
  \<^item> When the handler throws any other error, the wrapper returns a response whose text
    has \<open>success = false\<close>, the elapsed milliseconds and the error's message; \<open>stdout\<close>,
    \<open>stderr\<close>, \<open>exit_code\<close> and \<open>signal\<close> are there exactly when the error's property
    is truthy (not merely present), and \<open>timeout = true\<close> exactly when \<open>killed\<close> is
    truthy.
\<close>

theorem execute_two_tier:
  "(run args = Returned result \<longrightarrow>
      (\<exists>env. execute run args t = Inr env \<and>
         (\<forall>k v. k \<noteq> ''success'' \<and> k \<noteq> ''execution_time_ms'' \<and>
              map_of (rev result) k = Some v \<longrightarrow>
            obj_get env k = JSON_stringify v \<and>
            (json_value v \<longrightarrow> obj_get env k = Some v) \<and>
            (v = JUndefined \<longrightarrow> obj_get env k = None)) \<and>
         (\<forall>k. k \<noteq> ''success'' \<and> k \<noteq> ''execution_time_ms'' \<and>
              map_of (rev result) k = None \<longrightarrow>
            obj_get env k = None) \<and>
         (map_of (rev result) ''success'' = None \<longrightarrow>
            obj_get env ''success'' = Some (JBool True)) \<and>
         (map_of (rev result) ''execution_time_ms'' = None \<longrightarrow>
            obj_get env ''execution_time_ms'' = Some (JNum t)))) \<and>
   (run args = Thrown e \<and> is_mcp e \<longrightarrow> execute run args t = Inl e) \<and>
   (run args = Thrown e \<and> \<not> is_mcp e \<longrightarrow>
      (\<exists>env. execute run args t = Inr env \<and>
         obj_get env ''success'' = Some (JBool False) \<and>
         obj_get env ''execution_time_ms'' = Some (JNum t) \<and>
         obj_get env ''error'' = Some (JStr (message e)) \<and>
         obj_get env ''stdout'' =
           (case stdout e of None \<Rightarrow> None
            | Some s \<Rightarrow> if s = [] then None else Some (JStr s)) \<and>
         obj_get env ''stderr'' =
           (case stderr e of None \<Rightarrow> None
            | Some s \<Rightarrow> if s = [] then None else Some (JStr s)) \<and>
         obj_get env ''exit_code'' =
           (if truthy (code e) then JSON_stringify (code e) else None) \<and>
         (obj_get env ''exit_code'' \<noteq> None) = truthy (code e) \<and>
         obj_get env ''signal'' =
           (if truthy (signal e) then JSON_stringify (signal e) else None) \<and>
         (obj_get env ''signal'' \<noteq> None) = truthy (signal e) \<and>
         obj_get env ''timeout'' = (if truthy (killed e) then Some (JBool True) else None)))"
proof -
  have 1: "run args = Returned result \<longrightarrow>
      (\<exists>env. execute run args t = Inr env \<and>
         (\<forall>k v. k \<noteq> ''success'' \<and> k \<noteq> ''execution_time_ms'' \<and>
              map_of (rev result) k = Some v \<longrightarrow>
            obj_get env k = JSON_stringify v \<and>
            (json_value v \<longrightarrow> obj_get env k = Some v) \<and>
            (v = JUndefined \<longrightarrow> obj_get env k = None)) \<and>
         (\<forall>k. k \<noteq> ''success'' \<and> k \<noteq> ''execution_time_ms'' \<and>
              map_of (rev result) k = None \<longrightarrow>
            obj_get env k = None) \<and>
         (map_of (rev result) ''success'' = None \<longrightarrow>
            obj_get env ''success'' = Some (JBool True)) \<and>
         (map_of (rev result) ''execution_time_ms'' = None \<longrightarrow>
            obj_get env ''execution_time_ms'' = Some (JNum t)))"
  proof
    assume r: "run args = Returned result"
    show "\<exists>env. execute run args t = Inr env \<and>
         (\<forall>k v. k \<noteq> ''success'' \<and> k \<noteq> ''execution_time_ms'' \<and>
              map_of (rev result) k = Some v \<longrightarrow>
            obj_get env k = JSON_stringify v \<and>
            (json_value v \<longrightarrow> obj_get env k = Some v) \<and>
            (v = JUndefined \<longrightarrow> obj_get env k = None)) \<and>
         (\<forall>k. k \<noteq> ''success'' \<and> k \<noteq> ''execution_time_ms'' \<and>
              map_of (rev result) k = None \<longrightarrow>
            obj_get env k = None) \<and>
         (map_of (rev result) ''success'' = None \<longrightarrow>
            obj_get env ''success'' = Some (JBool True)) \<and>
         (map_of (rev result) ''execution_time_ms'' = None \<longrightarrow>
            obj_get env ''execution_time_ms'' = Some (JNum t))"
      by (rule exI [of _ "formatSuccess result t"])
         (simp add: execute_def r obj_get_formatSuccess JSON_stringify_json_value)
  qed
  have 2: "run args = Thrown e \<and> is_mcp e \<longrightarrow> execute run args t = Inl e"
    by (simp add: execute_def)
  have 3: "run args = Thrown e \<and> \<not> is_mcp e \<longrightarrow>
      (\<exists>env. execute run args t = Inr env \<and>
         obj_get env ''success'' = Some (JBool False) \<and>
         obj_get env ''execution_time_ms'' = Some (JNum t) \<and>
         obj_get env ''error'' = Some (JStr (message e)) \<and>
         obj_get env ''stdout'' =
           (case stdout e of None \<Rightarrow> None
            | Some s \<Rightarrow> if s = [] then None else Some (JStr s)) \<and>
         obj_get env ''stderr'' =
           (case stderr e of None \<Rightarrow> None
            | Some s \<Rightarrow> if s = [] then None else Some (JStr s)) \<and>
         obj_get env ''exit_code'' =
           (if truthy (code e) then JSON_stringify (code e) else None) \<and>
         (obj_get env ''exit_code'' \<noteq> None) = truthy (code e) \<and>
         obj_get env ''signal'' =
           (if truthy (signal e) then JSON_stringify (signal e) else None) \<and>
         (obj_get env ''signal'' \<noteq> None) = truthy (signal e) \<and>
         obj_get env ''timeout'' = (if truthy (killed e) then Some (JBool True) else None))"
  proof
    assume r: "run args = Thrown e \<and> \<not> is_mcp e"
    show "\<exists>env. execute run args t = Inr env \<and>
         obj_get env ''success'' = Some (JBool False) \<and>
         obj_get env ''execution_time_ms'' = Some (JNum t) \<and>
         obj_get env ''error'' = Some (JStr (message e)) \<and>
         obj_get env ''stdout'' =
           (case stdout e of None \<Rightarrow> None
            | Some s \<Rightarrow> if s = [] then None else Some (JStr s)) \<and>
         obj_get env ''stderr'' =
           (case stderr e of None \<Rightarrow> None
            | Some s \<Rightarrow> if s = [] then None else Some (JStr s)) \<and>
         obj_get env ''exit_code'' =
           (if truthy (code e) then JSON_stringify (code e) else None) \<and>
         (obj_get env ''exit_code'' \<noteq> None) = truthy (code e) \<and>
         obj_get env ''signal'' =
           (if truthy (signal e) then JSON_stringify (signal e) else None) \<and>
         (obj_get env ''signal'' \<noteq> None) = truthy (signal e) \<and>
         obj_get env ''timeout'' = (if truthy (killed e) then Some (JBool True) else None)"
      by (rule exI [of _ "formatError e t"])
         (simp add: execute_def r obj_get_formatError JSON_stringify_truthy
            split: option.splits)
  qed
  show ?thesis by (rule conjI [OF 1 conjI [OF 2 3]])
qed

theorem execute_two_tier_witness:
  "(\<exists>env. execute (\<lambda>args. Returned [(''exit_code'', JNum 0), (''recursive'', JUndefined)]) [] 7
        = Inr env \<and>
      obj_get env ''exit_code'' = Some (JNum 0) \<and>
      obj_get env ''recursive'' = None \<and>
      obj_get env ''success'' = Some (JBool True) \<and>
      obj_get env ''execution_time_ms'' = Some (JNum 7)) \<and>
   execute (\<lambda>args. Thrown (McpError InvalidParams ''Command must be a non-empty string'')) [] 7
     = Inl (McpError InvalidParams ''Command must be a non-empty string'') \<and>
   (\<exists>env. execute (\<lambda>args. Thrown ((Error ''Command failed'')\<lparr>code := JNum 2\<rparr>)) [] 7 = Inr env \<and>
      obj_get env ''success'' = Some (JBool False) \<and>
      obj_get env ''error'' = Some (JStr ''Command failed'') \<and>
      obj_get env ''exit_code'' = Some (JNum 2) \<and>
      obj_get env ''stdout'' = None)"
proof (intro conjI)
  show "\<exists>env. execute (\<lambda>args. Returned [(''exit_code'', JNum 0), (''recursive'', JUndefined)]) [] 7
        = Inr env \<and>
      obj_get env ''exit_code'' = Some (JNum 0) \<and>
      obj_get env ''recursive'' = None \<and>
      obj_get env ''success'' = Some (JBool True) \<and>
      obj_get env ''execution_time_ms'' = Some (JNum 7)"
    using execute_two_tier [of
        "\<lambda>args. Returned [(''exit_code'', JNum 0), (''recursive'', JUndefined)]" "[]"
        "[(''exit_code'', JNum 0), (''recursive'', JUndefined)]" 7]
    by auto
next
  show "execute (\<lambda>args. Thrown (McpError InvalidParams ''Command must be a non-empty string'')) [] 7
     = Inl (McpError InvalidParams ''Command must be a non-empty string'')"
    using execute_two_tier [of
        "\<lambda>args. Thrown (McpError InvalidParams ''Command must be a non-empty string'')" "[]" _ 7
        "McpError InvalidParams ''Command must be a non-empty string''"]
    by (simp add: McpError_def)
next
  show "\<exists>env. execute (\<lambda>args. Thrown ((Error ''Command failed'')\<lparr>code := JNum 2\<rparr>)) [] 7 = Inr env \<and>
      obj_get env ''success'' = Some (JBool False) \<and>
      obj_get env ''error'' = Some (JStr ''Command failed'') \<and>
      obj_get env ''exit_code'' = Some (JNum 2) \<and>
      obj_get env ''stdout'' = None"
    using execute_two_tier [of
        "\<lambda>args. Thrown ((Error ''Command failed'')\<lparr>code := JNum 2\<rparr>)" "[]" _ 7
        "(Error ''Command failed'')\<lparr>code := JNum 2\<rparr>"]
    by (auto simp: Error_def)
qed

text \<open>
  C10, as stated, fails on the code: not every kill of the child process is reported as
  \<open>timeout = true\<close>.  When the output exceeds the buffer cap, \<^verbatim>\<open>child_process.exec\<close>
  kills the child and rejects with its \<^verbatim>\<open>ERR_CHILD_PROCESS_STDIO_MAXBUFFER\<close> error, which
  has no \<open>killed\<close> property; when the child is killed by a signal from outside, the error
  has \<open>killed = false\<close>.  Neither response has a \<open>timeout\<close> field.
\<close>

theorem formatError_kill_counterexample:
  "formatError \<lparr>is_mcp = False, mcp_code = None,
       message = ''stdout maxBuffer length exceeded'', stdout = Some ''aaaaaaaa'',
       stderr = Some [], code = JStr ''ERR_CHILD_PROCESS_STDIO_MAXBUFFER'',
       signal = JUndefined, killed = JUndefined\<rparr> 12
     = [(''success'', JBool False), (''execution_time_ms'', JNum 12),
        (''error'', JStr ''stdout maxBuffer length exceeded''),
        (''stdout'', JStr ''aaaaaaaa''),
        (''exit_code'', JStr ''ERR_CHILD_PROCESS_STDIO_MAXBUFFER'')]
   \<and> formatError \<lparr>is_mcp = False, mcp_code = None,
       message = ''Command failed: sleep 100'', stdout = Some [], stderr = Some [],
       code = JNull, signal = JStr ''SIGKILL'', killed = JBool False\<rparr> 12
     = [(''success'', JBool False), (''execution_time_ms'', JNum 12),
        (''error'', JStr ''Command failed: sleep 100''), (''signal'', JStr ''SIGKILL'')]"
  by (simp add: formatError_def spread_when_def json_members_def List.map_filter_simps)

text \<open>
  C10, amended: in the failure envelope the \<open>exit_code\<close> field is there exactly when the
  error's \<open>code\<close> is truthy, so exit code 0 is reported without the field; and \<open>timeout\<close>
  is \<open>true\<close> exactly when the error's \<open>killed\<close> is truthy (the other properties of the
  error, \<open>signal\<close> among them, play no part).  So a kill of the child that leaves no
  truthy \<open>killed\<close> on the error, the property missing or \<open>false\<close>, is reported without
  the \<open>timeout\<close> field, and an error with \<open>killed = true\<close> is reported with it.
\<close>

theorem formatError_exit_code_timeout:
  "(obj_get (formatError e t) ''exit_code'' \<noteq> None) = truthy (code e) \<and>
   obj_get (formatError (e\<lparr>code := JNum 0\<rparr>) t) ''exit_code'' = None \<and>
   (obj_get (formatError e t) ''timeout'' = Some (JBool True)) = truthy (killed e) \<and>
   (obj_get (formatError e t) ''timeout'' \<noteq> None) = truthy (killed e) \<and>
   obj_get (formatError (e\<lparr>killed := JUndefined\<rparr>) t) ''timeout'' = None \<and>
   obj_get (formatError (e\<lparr>killed := JBool False\<rparr>) t) ''timeout'' = None \<and>
   obj_get (formatError (e\<lparr>killed := JBool True\<rparr>) t) ''timeout'' = Some (JBool True)"
  by (simp add: obj_get_formatError JSON_stringify_truthy)

section \<open>Command permission\<close>

lemma str_includes_iff: "str_includes s t = (\<exists>ps ss. s = ps @ t @ ss)"
proof (induction s)
  case Nil
  show ?case by auto
next
  case (Cons c s)
  show ?case
  proof
    assume "str_includes (c # s) t"
    then consider "prefix t (c # s)" | "str_includes s t" by auto
    then show "\<exists>ps ss. c # s = ps @ t @ ss"
    proof cases
      case 1
      then obtain ss where "c # s = t @ ss" by (auto simp: prefix_def)
      then have "c # s = [] @ t @ ss" by simp
      then show ?thesis by blast
    next
      case 2
      then obtain ps ss where "s = ps @ t @ ss" using Cons.IH by blast
      then have "c # s = (c # ps) @ t @ ss" by simp
      then show ?thesis by blast
    qed
  next
    assume "\<exists>ps ss. c # s = ps @ t @ ss"
    then obtain ps ss where e: "c # s = ps @ t @ ss" by blast
    show "str_includes (c # s) t"
    proof (cases ps)
      case Nil
      then have "c # s = t @ ss" using e by simp
      then have "prefix t (c # s)" unfolding prefix_def by blast
      then show ?thesis by simp
    next
      case (Cons p ps')
      then have "s = ps' @ t @ ss" using e by simp
      then show ?thesis using Cons.IH by auto
    qed
  qed
qed

text \<open>
  C7: in strict mode \<^verbatim>\<open>isCommandAllowed\<close> permits a command exactly when the lower-cased
  command contains the lower-cased form of some whitelist entry as a substring, and an
  empty whitelist permits nothing; in every other mode, \<open>standard\<close> among them, it
  rejects a command exactly when the command contains some blacklist entry in that sense,
  and an empty blacklist rejects nothing.
\<close>

theorem isCommandAllowed_modes:
  "(securityMode cfg = ''strict'' \<longrightarrow>
      isCommandAllowed cfg command =
        (\<exists>pattern \<in> set (commandWhitelist cfg).
           \<exists>ps ss. toLowerCase command = ps @ toLowerCase pattern @ ss)) \<and>
   (securityMode cfg = ''strict'' \<and> commandWhitelist cfg = [] \<longrightarrow>
      \<not> isCommandAllowed cfg command) \<and>
   (securityMode cfg \<noteq> ''strict'' \<longrightarrow>
      (\<not> isCommandAllowed cfg command) =
        (\<exists>pattern \<in> set (commandBlacklist cfg).
           \<exists>ps ss. toLowerCase command = ps @ toLowerCase pattern @ ss)) \<and>
   (securityMode cfg \<noteq> ''strict'' \<and> commandBlacklist cfg = [] \<longrightarrow>
      isCommandAllowed cfg command)"
  by (auto simp: isCommandAllowed_def list_ex_iff str_includes_iff)

theorem isCommandAllowed_modes_witness:
  "isCommandAllowed \<lparr>securityMode = ''strict'', commandWhitelist = [''LS'', ''git''],
       commandBlacklist = []\<rparr> ''ls -la'' \<and>
   \<not> isCommandAllowed \<lparr>securityMode = ''strict'', commandWhitelist = [],
       commandBlacklist = []\<rparr> ''ls -la'' \<and>
   \<not> isCommandAllowed \<lparr>securityMode = ''standard'', commandWhitelist = [],
       commandBlacklist = [''rm -rf'']\<rparr> ''sudo RM -RF /'' \<and>
   isCommandAllowed \<lparr>securityMode = ''standard'', commandWhitelist = [],
       commandBlacklist = []\<rparr> ''sudo RM -RF /''"
proof -
  let ?strict = "\<lparr>securityMode = ''strict'', commandWhitelist = [''LS'', ''git''],
       commandBlacklist = []\<rparr>"
  let ?strictE = "\<lparr>securityMode = ''strict'', commandWhitelist = [],
       commandBlacklist = []\<rparr>"
  let ?std = "\<lparr>securityMode = ''standard'', commandWhitelist = [],
       commandBlacklist = [''rm -rf'']\<rparr>"
  let ?stdE = "\<lparr>securityMode = ''standard'', commandWhitelist = [],
       commandBlacklist = []\<rparr>"
  have l1: "toLowerCase ''ls -la'' = [] @ toLowerCase ''LS'' @ '' -la''" by code_simp
  have l2: "toLowerCase ''sudo RM -RF /'' = ''sudo '' @ toLowerCase ''rm -rf'' @ '' /''"
    by code_simp
  have e1: "\<exists>ps ss. toLowerCase ''ls -la'' = ps @ toLowerCase ''LS'' @ ss"
    by (rule exI [of _ "[]"], rule exI [of _ "'' -la''"], rule l1)
  have e2: "\<exists>ps ss. toLowerCase ''sudo RM -RF /'' = ps @ toLowerCase ''rm -rf'' @ ss"
    by (rule exI [of _ "''sudo ''"], rule exI [of _ "'' /''"], rule l2)
  have m1: "\<exists>pattern \<in> set (commandWhitelist ?strict).
      \<exists>ps ss. toLowerCase ''ls -la'' = ps @ toLowerCase pattern @ ss"
  proof (rule bexI)
    show "\<exists>ps ss. toLowerCase ''ls -la'' = ps @ toLowerCase ''LS'' @ ss" by (rule e1)
    show "''LS'' \<in> set (commandWhitelist ?strict)" by simp
  qed
  have m2: "\<exists>pattern \<in> set (commandBlacklist ?std).
      \<exists>ps ss. toLowerCase ''sudo RM -RF /'' = ps @ toLowerCase pattern @ ss"
  proof (rule bexI)
    show "\<exists>ps ss. toLowerCase ''sudo RM -RF /'' = ps @ toLowerCase ''rm -rf'' @ ss"
      by (rule e2)
    show "''rm -rf'' \<in> set (commandBlacklist ?std)" by simp
  qed
  have s1: "securityMode ?strict = ''strict''"
    and s2: "securityMode ?strictE = ''strict'' \<and> commandWhitelist ?strictE = []"
    and s3: "securityMode ?std \<noteq> ''strict''"
    and s4: "securityMode ?stdE \<noteq> ''strict'' \<and> commandBlacklist ?stdE = []"
    by simp_all
  have a: "isCommandAllowed ?strict ''ls -la''"
    using isCommandAllowed_modes [of ?strict "''ls -la''"] s1 m1 by blast
  have b: "\<not> isCommandAllowed ?strictE ''ls -la''"
    using isCommandAllowed_modes [of ?strictE "''ls -la''"] s2 by blast
  have c: "\<not> isCommandAllowed ?std ''sudo RM -RF /''"
    using isCommandAllowed_modes [of ?std "''sudo RM -RF /''"] s3 m2 by blast
  have d: "isCommandAllowed ?stdE ''sudo RM -RF /''"
    using isCommandAllowed_modes [of ?stdE "''sudo RM -RF /''"] s4 by blast
  from a b c d show ?thesis by blast
qed



section \<open>Execution options\<close>

text \<open>
  C4, as stated, fails on the code: a requested timeout of 5 ms comes out as 5 ms.
  \<^verbatim>\<open>getExecOptions\<close> caps the timeout from above and never raises it.
\<close>

theorem getExecOptions_low_counterexample:
  "timeout (getExecOptions [] \<lparr>opt_timeout = Some 5, opt_working_directory = None,
       opt_environment = None\<rparr>) = 5 \<and>
   \<not> 1000 \<le> timeout (getExecOptions [] \<lparr>opt_timeout = Some 5,
       opt_working_directory = None, opt_environment = None\<rparr>)"
  by (simp add: getExecOptions_def DEFAULT_TIMEOUT_def MAX_TIMEOUT_def)

text \<open>
  C4, amended: the timeout of the built options is the minimum of 300000 and the requested
  timeout, where a timeout that is not given or is 0 counts as the default 30000; it never
  exceeds 300000; and it is at least 1000 whenever the requested timeout is not given,
  is 0 or is at least 1000.  The default of the script handler is its own: it passes
  60000 to the builder when its timeout argument is not given.
\<close>

theorem getExecOptions_timeout:
  "timeout (getExecOptions process_env options) =
     min (case opt_timeout options of None \<Rightarrow> 30000
          | Some t \<Rightarrow> if t = 0 then 30000 else t) 300000 \<and>
   timeout (getExecOptions process_env options) \<le> 300000 \<and>
   ((case opt_timeout options of None \<Rightarrow> True | Some t \<Rightarrow> t = 0 \<or> 1000 \<le> t) \<longrightarrow>
      1000 \<le> timeout (getExecOptions process_env options)) \<and>
   timeout (script_execOptions os args) =
     min (case arg_timeout args of None \<Rightarrow> 60000
          | Some t \<Rightarrow> if t = 0 then 30000 else t) 300000"
  by (auto simp: getExecOptions_def script_execOptions_def DEFAULT_TIMEOUT_def MAX_TIMEOUT_def
      TIMEOUTS_SCRIPT_def split: option.splits)

theorem getExecOptions_timeout_witness:
  "timeout (getExecOptions [] \<lparr>opt_timeout = Some 450000, opt_working_directory = None,
       opt_environment = None\<rparr>) = 300000 \<and>
   1000 \<le> timeout (getExecOptions [] \<lparr>opt_timeout = Some 450000,
       opt_working_directory = None, opt_environment = None\<rparr>)"
  using getExecOptions_timeout [of "[]" "\<lparr>opt_timeout = Some 450000,
       opt_working_directory = None, opt_environment = None\<rparr>"]
  by simp

section \<open>The tool registry\<close>



lemma first_occurrences_snoc:
  "rev (remdups (rev (xs @ [x]))) =
     (if x \<in> set xs then rev (remdups (rev xs)) else rev (remdups (rev xs)) @ [x])"
  by simp










lemma default_names_distinct: "distinct (map builtin_name default_classes)"
  by (simp add: default_classes_def)




section \<open>The path guard\<close>

text \<open>
  The path the guard tests never has a parent-directory segment: with an absolute
  working directory (or an absolute argument) \<^verbatim>\<open>resolve\<close> gives \<open>/\<close> followed by
  clean segments, and \<^verbatim>\<open>normalize\<close> leaves such a path as it is.
\<close>

lemma split_on_nonempty: "split_on c s \<noteq> []"
  by (induction s) (auto split: list.splits)

lemma split_on_no_sep: "piece \<in> set (split_on c s) \<Longrightarrow> c \<notin> set piece"
proof (induction s arbitrary: piece)
  case Nil
  then show ?case by simp
next
  case (Cons x s)
  show ?case
  proof (cases "x = c")
    case True
    with Cons show ?thesis by auto
  next
    case False
    obtain p ps where sp: "split_on c s = p # ps"
      using split_on_nonempty [of c s] by (cases "split_on c s") auto
    with Cons.prems False have "piece = x # p \<or> piece \<in> set ps" by simp
    then show ?thesis
      using Cons.IH [of p] Cons.IH [of piece] sp False by auto
  qed
qed

lemma split_on_plain: "c \<notin> set seg \<Longrightarrow> split_on c seg = [seg]"
  by (induction seg) auto

lemma split_on_append_sep:
  "c \<notin> set seg \<Longrightarrow> split_on c (seg @ c # rest) = seg # split_on c rest"
  by (induction seg) auto

lemma split_on_join:
  "segs \<noteq> [] \<Longrightarrow> \<forall>seg \<in> set segs. CHR ''/'' \<notin> set seg \<Longrightarrow>
     split_on CHR ''/'' (join ''/'' segs) = segs"
proof (induction "''/''" segs rule: join.induct)
  case 1
  then show ?case by simp
next
  case (2 piece)
  then show ?case by (simp add: split_on_plain)
next
  case (3 piece v va)
  then show ?case by (simp add: split_on_append_sep)
qed

lemma normalize_step_clean:
  "clean res \<Longrightarrow> CHR ''/'' \<notin> set seg \<Longrightarrow> clean (normalize_step False res seg)"
  by (auto simp: clean_def normalize_step_def dest: in_set_butlastD)

lemma foldl_normalize_clean:
  "clean res \<Longrightarrow> \<forall>seg \<in> set segs. CHR ''/'' \<notin> set seg \<Longrightarrow>
     clean (foldl (normalize_step False) res segs)"
  by (induction segs arbitrary: res) (auto simp: normalize_step_clean)

lemma foldl_normalize_id:
  "clean segs \<Longrightarrow> foldl (normalize_step b) res segs = res @ segs"
  by (induction segs arbitrary: res) (auto simp: clean_def normalize_step_def)


lemma join_clean_last:
  "segs \<noteq> [] \<Longrightarrow> clean segs \<Longrightarrow>
     join ''/'' segs \<noteq> [] \<and> last (join ''/'' segs) \<noteq> CHR ''/''"
proof (induction "''/''" segs rule: join.induct)
  case 1
  then show ?case by simp
next
  case (2 piece)
  then have "piece \<noteq> []" and "CHR ''/'' \<notin> set piece" by (auto simp: clean_def)
  then have "last piece \<noteq> CHR ''/''" by (metis last_in_set)
  with \<open>piece \<noteq> []\<close> show ?case by simp
next
  case (3 piece v va)
  then show ?case by (auto simp: clean_def)
qed

lemma normalizeString_clean:
  "\<exists>segs. clean segs \<and> normalizeString r False = join ''/'' segs"
proof -
  have "clean (foldl (normalize_step False) [] (split_on CHR ''/'' r))"
    by (rule foldl_normalize_clean) (auto simp: clean_def dest: split_on_no_sep)
  then show ?thesis by (auto simp: normalizeString_def)
qed

lemma resolve_absolute:
  assumes "(process_cwd \<noteq> [] \<and> hd process_cwd = CHR ''/'') \<or>
           (filePath \<noteq> [] \<and> hd filePath = CHR ''/'')"
  shows "\<exists>segs. clean segs \<and> resolve process_cwd filePath = ''/'' @ join ''/'' segs"
  using assms normalizeString_clean by (auto simp: resolve_def Let_def)

lemma normalize_clean:
  assumes "clean segs"
  shows "normalize (''/'' @ join ''/'' segs) = ''/'' @ join ''/'' segs"
proof (cases "segs = []")
  case True
  then show ?thesis
    by (simp add: normalize_def normalizeString_def normalize_step_def)
next
  case False
  have sj: "split_on CHR ''/'' (join ''/'' segs) = segs"
    using False assms by (simp add: split_on_join clean_def)
  have ns: "normalizeString (CHR ''/'' # join ''/'' segs) False = join ''/'' segs"
    by (simp add: normalizeString_def sj normalize_step_def foldl_normalize_id [OF assms])
  show ?thesis
    using join_clean_last [OF False assms] by (simp add: normalize_def ns Let_def)
qed

lemma clean_segments:
  assumes "clean segs"
  shows "''..'' \<notin> set (split_on CHR ''/'' (''/'' @ join ''/'' segs))"
proof (cases "segs = []")
  case True
  then show ?thesis by simp
next
  case False
  then have "split_on CHR ''/'' (''/'' @ join ''/'' segs) = [] # segs"
    using assms by (simp add: split_on_join clean_def)
  then show ?thesis using assms by (auto simp: clean_def)
qed

lemma resolved_path_has_no_parent_segment:
  assumes "(process_cwd \<noteq> [] \<and> hd process_cwd = CHR ''/'') \<or>
           (filePath \<noteq> [] \<and> hd filePath = CHR ''/'')"
  shows "''..'' \<notin> set (split_on CHR ''/'' (normalize (resolve process_cwd filePath)))"
proof -
  obtain segs where c: "clean segs" and r: "resolve process_cwd filePath = ''/'' @ join ''/'' segs"
    using resolve_absolute [OF assms] by blast
  show ?thesis
    by (simp only: r normalize_clean [OF c]) (rule clean_segments [OF c])
qed

text \<open>
  C2: the code departs from the claim.  The guard looks for the substring \<open>..\<close> in the
  path after \<^verbatim>\<open>resolve\<close> has removed every parent-directory segment.  So a path that
  climbs out of the home directory through \<open>..\<close> segments is accepted, relative or
  absolute, and a path outside the home directory with no such segment, whose last name
  merely contains two dots, is rejected.
\<close>

theorem validateAndNormalizePath_traversal_accepted:
  "validateAndNormalizePath ''/home/user'' ''/home/user/project'' ''../../../etc/passwd''
     = Inr ''/etc/passwd'' \<and>
   validateAndNormalizePath ''/home/user'' ''/home/user/project'' ''/tmp/../etc/passwd''
     = Inr ''/etc/passwd'' \<and>
   validateAndNormalizePath ''/home/user'' ''/home/user/project'' ''/tmp/a..b''
     = Inl (Error ''Path traversal detected - access denied'')"
  by code_simp

section \<open>Directory creation\<close>

lemma mkdirSync_makes_directory:
  "mkdirSync fault files p recursive = Inr files' \<Longrightarrow> files' p = Some Directory"
  by (auto simp: mkdirSync_def split: option.splits if_splits)

lemma createDirectory_existing:
  assumes "validateAndNormalizePath homePath wd dirPath = Inr np"
    and "files np = Some Directory"
  shows "createDirectory homePath wd fault dirPath r files =
     (Returned [(''operation'', JStr ''create''), (''directory_path'', JStr np),
                (''created'', JBool False), (''existed'', JBool True)], files)"
  using assms by (simp add: createDirectory_def existsSync_def)

lemma createDirectory_not_directory:
  assumes "validateAndNormalizePath homePath wd dirPath = Inr np"
    and "files np = Some File"
  shows "createDirectory homePath wd fault dirPath r files =
     (Thrown (Error (''Path exists but is not a directory: '' @ np)), files)"
  using assms by (simp add: createDirectory_def existsSync_def)

lemma createDirectory_returned:
  assumes "validateAndNormalizePath homePath wd dirPath = Inr np"
    and "createDirectory homePath wd fault dirPath r files = (Returned res, files')"
  shows "files' np = Some Directory"
  using assms
  by (auto simp: createDirectory_def existsSync_def Let_def
      dest: mkdirSync_makes_directory split: if_splits sum.splits option.splits)

lemma run_create:
  assumes "arg_operation args = Some ''create''" and "arg_path args = Some dirPath"
    and "dirPath \<noteq> []"
  shows "DirectoryOperationsTool_run homePath wd fault other args files =
     (case createDirectory homePath wd fault dirPath
             (Some (case arg_recursive args of None \<Rightarrow> True | Some r \<Rightarrow> r)) files of
        (Returned result, files') \<Rightarrow>
          (Returned
             (obj_set ''options''
                (JObj [(''recursive'', js_bool_opt (arg_recursive args)),
                       (''include_hidden'',
                        JBool (case arg_include_hidden args of None \<Rightarrow> False | Some b \<Rightarrow> b)),
                       (''detailed'',
                        JBool (case arg_detailed args of None \<Rightarrow> True | Some b \<Rightarrow> b)),
                       (''force'',
                        JBool (case arg_force args of None \<Rightarrow> False | Some b \<Rightarrow> b))])
                (obj_set ''requested_operation'' (JStr ''create'') result)),
           files')
      | (Thrown error, files') \<Rightarrow> (Thrown (convert_fs_error dirPath error), files'))"
  using assms by (simp add: DirectoryOperationsTool_run_def DIRECTORY_OPERATIONS_def)

lemma validate_nonempty:
  "validateAndNormalizePath homePath wd dirPath = Inr np \<Longrightarrow> dirPath \<noteq> []"
  by (auto simp: validateAndNormalizePath_def)

text \<open>
  C8, as stated, fails on the code: \<^verbatim>\<open>createDirectory\<close> passes its path through the
  guard first, and the guard rejects the directory \<open>/tmp/a..b\<close>, which exists.
\<close>

theorem createDirectory_guard_counterexample:
  "(Map.empty(''/tmp'' \<mapsto> Directory, ''/tmp/a..b'' \<mapsto> Directory)) ''/tmp/a..b'' = Some Directory \<and>
   fst (createDirectory ''/home/user'' ''/home/user'' None ''/tmp/a..b'' None
          (Map.empty(''/tmp'' \<mapsto> Directory, ''/tmp/a..b'' \<mapsto> Directory)))
     = Thrown (Error ''Path traversal detected - access denied'')"
proof -
  have "validateAndNormalizePath ''/home/user'' ''/home/user'' ''/tmp/a..b''
      = Inl (Error ''Path traversal detected - access denied'')"
    by code_simp
  then show ?thesis by (simp add: createDirectory_def)
qed

text \<open>
  C8, amended: for every path that the path guard accepts, with \<open>np\<close> its normalized
  form,
  \<^item> when \<open>np\<close> exists as a directory, \<^verbatim>\<open>createDirectory\<close> returns \<open>created = false\<close>,
    \<open>existed = true\<close> and leaves the file system as it is;
  \<^item> when \<open>np\<close> exists and is not a directory, it throws;
  \<^item> after any call that returned, a second call on the same path returns
    \<open>created = false\<close>, \<open>existed = true\<close>, whatever its options;
  \<^item> the same holds through the tool: for \<open>operation = create\<close> the handler returns a
    result with \<open>created = false\<close> and \<open>existed = true\<close>, which the wrapper reports with
    \<open>success = true\<close>, when the directory exists, and the wrapper reports
    \<open>success = false\<close> when the path is not a directory.
\<close>

theorem createDirectory_idempotent:
  "validateAndNormalizePath homePath wd dirPath = Inr np \<longrightarrow>
     (files np = Some Directory \<longrightarrow>
        createDirectory homePath wd fault dirPath r files =
          (Returned [(''operation'', JStr ''create''), (''directory_path'', JStr np),
                     (''created'', JBool False), (''existed'', JBool True)], files)) \<and>
     (files np = Some File \<longrightarrow>
        createDirectory homePath wd fault dirPath r files =
          (Thrown (Error (''Path exists but is not a directory: '' @ np)), files)) \<and>
     (\<forall>res files'.
        createDirectory homePath wd fault dirPath r files = (Returned res, files') \<longrightarrow>
        createDirectory homePath wd fault' dirPath r' files' =
          (Returned [(''operation'', JStr ''create''), (''directory_path'', JStr np),
                     (''created'', JBool False), (''existed'', JBool True)], files')) \<and>
     (arg_operation args = Some ''create'' \<and> arg_path args = Some dirPath \<longrightarrow>
        (files np = Some Directory \<longrightarrow>
           (\<exists>result. DirectoryOperationsTool_run homePath wd fault other args files =
                (Returned result, files) \<and>
              obj_get result ''created'' = Some (JBool False) \<and>
              obj_get result ''existed'' = Some (JBool True) \<and>
              (\<exists>env. execute (\<lambda>a. Returned result) a t = Inr env \<and>
                 obj_get env ''success'' = Some (JBool True) \<and>
                 obj_get env ''existed'' = Some (JBool True)))) \<and>
        (files np = Some File \<longrightarrow>
           (\<exists>e. DirectoryOperationsTool_run homePath wd fault other args files =
                (Thrown e, files) \<and>
              (\<exists>env. execute (\<lambda>a. Thrown e) a t = Inr env \<and>
                 obj_get env ''success'' = Some (JBool False)))))"
proof (intro impI conjI allI)
  assume v: "validateAndNormalizePath homePath wd dirPath = Inr np"
  {
    assume d: "files np = Some Directory"
    show "createDirectory homePath wd fault dirPath r files =
          (Returned [(''operation'', JStr ''create''), (''directory_path'', JStr np),
                     (''created'', JBool False), (''existed'', JBool True)], files)"
      by (rule createDirectory_existing [where files = files, OF v d])
  }
  {
    assume f: "files np = Some File"
    show "createDirectory homePath wd fault dirPath r files =
          (Thrown (Error (''Path exists but is not a directory: '' @ np)), files)"
      by (rule createDirectory_not_directory [where files = files, OF v f])
  }
  {
    fix res files'
    assume c: "createDirectory homePath wd fault dirPath r files = (Returned res, files')"
    show "createDirectory homePath wd fault' dirPath r' files' =
          (Returned [(''operation'', JStr ''create''), (''directory_path'', JStr np),
                     (''created'', JBool False), (''existed'', JBool True)], files')"
      by (rule createDirectory_existing [where files = files', OF v createDirectory_returned [OF v c]])
  }
  {
    assume a: "arg_operation args = Some ''create'' \<and> arg_path args = Some dirPath"
    note run = run_create [of args dirPath homePath wd fault other files, OF _ _ validate_nonempty [OF v]]
    {
      assume d: "files np = Some Directory"
      let ?result = "obj_set ''options''
                (JObj [(''recursive'', js_bool_opt (arg_recursive args)),
                       (''include_hidden'',
                        JBool (case arg_include_hidden args of None \<Rightarrow> False | Some b \<Rightarrow> b)),
                       (''detailed'',
                        JBool (case arg_detailed args of None \<Rightarrow> True | Some b \<Rightarrow> b)),
                       (''force'',
                        JBool (case arg_force args of None \<Rightarrow> False | Some b \<Rightarrow> b))])
                (obj_set ''requested_operation'' (JStr ''create'')
                   [(''operation'', JStr ''create''), (''directory_path'', JStr np),
                    (''created'', JBool False), (''existed'', JBool True)])"
      have r: "DirectoryOperationsTool_run homePath wd fault other args files =
                (Returned ?result, files)"
        using a by (simp add: run createDirectory_existing [where files = files, OF v d])
      have g: "obj_get ?result ''created'' = Some (JBool False)"
          "obj_get ?result ''existed'' = Some (JBool True)"
        by (simp_all add: obj_get_def)
      have m: "map_of (rev ?result) ''existed'' = Some (JBool True)"
          "map_of (rev ?result) ''success'' = None"
        by simp_all
      have e: "\<exists>env. execute (\<lambda>a. Returned ?result) a t = Inr env \<and>
                 obj_get env ''success'' = Some (JBool True) \<and>
                 obj_get env ''existed'' = Some (JBool True)"
        by (rule exI [of _ "formatSuccess ?result t"])
           (simp add: execute_def obj_get_formatSuccess m del: obj_set.simps)
      show "\<exists>result. DirectoryOperationsTool_run homePath wd fault other args files =
                (Returned result, files) \<and>
              obj_get result ''created'' = Some (JBool False) \<and>
              obj_get result ''existed'' = Some (JBool True) \<and>
              (\<exists>env. execute (\<lambda>a. Returned result) a t = Inr env \<and>
                 obj_get env ''success'' = Some (JBool True) \<and>
                 obj_get env ''existed'' = Some (JBool True))"
        using r g e by blast
    }
    {
      assume f: "files np = Some File"
      let ?e = "Error (''Path exists but is not a directory: '' @ np)"
      have r: "DirectoryOperationsTool_run homePath wd fault other args files =
                (Thrown ?e, files)"
        using a by (simp add: run createDirectory_not_directory [where files = files, OF v f]
            convert_fs_error_def Error_def)
      have e: "\<exists>env. execute (\<lambda>a. Thrown ?e) a t = Inr env \<and>
                 obj_get env ''success'' = Some (JBool False)"
        by (rule exI [of _ "formatError ?e t"])
           (simp add: execute_def obj_get_formatError Error_def)
      show "\<exists>e. DirectoryOperationsTool_run homePath wd fault other args files =
                (Thrown e, files) \<and>
              (\<exists>env. execute (\<lambda>a. Thrown e) a t = Inr env \<and>
                 obj_get env ''success'' = Some (JBool False))"
        using r e by blast
    }
  }
qed


theorem createDirectory_idempotent_witness:
  "fst (createDirectory ''/home/user'' ''/home/user'' None ''projects/demo'' None
          (Map.empty(''/home/user/projects/demo'' \<mapsto> Directory)))
     = Returned [(''operation'', JStr ''create''),
                 (''directory_path'', JStr ''/home/user/projects/demo''),
                 (''created'', JBool False), (''existed'', JBool True)] \<and>
   fst (createDirectory ''/home/user'' ''/home/user'' None ''notes.txt'' None
          (Map.empty(''/home/user/notes.txt'' \<mapsto> File)))
     = Thrown (Error ''Path exists but is not a directory: /home/user/notes.txt'') \<and>
   fst (createDirectory ''/home/user'' ''/home/user'' None ''fresh'' (Some False)
          (snd (createDirectory ''/home/user'' ''/home/user'' None ''fresh'' (Some False)
                  (Map.empty(''/home/user'' \<mapsto> Directory)))))
     = Returned [(''operation'', JStr ''create''),
                 (''directory_path'', JStr ''/home/user/fresh''),
                 (''created'', JBool False), (''existed'', JBool True)]"
proof -
  have v1: "validateAndNormalizePath ''/home/user'' ''/home/user'' ''projects/demo''
      = Inr ''/home/user/projects/demo''"
    by code_simp
  have v2: "validateAndNormalizePath ''/home/user'' ''/home/user'' ''notes.txt''
      = Inr ''/home/user/notes.txt''"
    by code_simp
  have v3: "validateAndNormalizePath ''/home/user'' ''/home/user'' ''fresh''
      = Inr ''/home/user/fresh''"
    by code_simp
  have anc: "ancestors ''/home/user/fresh'' = [''/home'', ''/home/user'']"
    by code_simp
  let ?first = "createDirectory ''/home/user'' ''/home/user'' None ''fresh'' (Some False)
      (Map.empty(''/home/user'' \<mapsto> Directory))"
  have "fst ?first = Returned [(''operation'', JStr ''create''),
        (''directory_path'', JStr ''/home/user/fresh''),
        (''created'', JBool True), (''existed'', JBool False),
        (''stats'', JObj [(''is_file'', JBool False), (''is_directory'', JBool True),
                          (''is_symbolic_link'', JBool False)])]"
    by (simp add: createDirectory_def v3 existsSync_def mkdirSync_def anc getFileStats_def)
  then have first: "?first = (Returned [(''operation'', JStr ''create''),
        (''directory_path'', JStr ''/home/user/fresh''),
        (''created'', JBool True), (''existed'', JBool False),
        (''stats'', JObj [(''is_file'', JBool False), (''is_directory'', JBool True),
                          (''is_symbolic_link'', JBool False)])], snd ?first)"
    by (simp add: prod_eq_iff)
  have a: "fst (createDirectory ''/home/user'' ''/home/user'' None ''projects/demo'' None
          (Map.empty(''/home/user/projects/demo'' \<mapsto> Directory)))
     = Returned [(''operation'', JStr ''create''),
                 (''directory_path'', JStr ''/home/user/projects/demo''),
                 (''created'', JBool False), (''existed'', JBool True)]"
    using createDirectory_idempotent [where homePath = "''/home/user''" and wd = "''/home/user''"
        and dirPath = "''projects/demo''" and np = "''/home/user/projects/demo''"
        and files = "Map.empty(''/home/user/projects/demo'' \<mapsto> Directory)"
        and fault = None and r = None] v1
    by simp
  have b: "fst (createDirectory ''/home/user'' ''/home/user'' None ''notes.txt'' None
          (Map.empty(''/home/user/notes.txt'' \<mapsto> File)))
     = Thrown (Error ''Path exists but is not a directory: /home/user/notes.txt'')"
    using createDirectory_idempotent [where homePath = "''/home/user''" and wd = "''/home/user''"
        and dirPath = "''notes.txt''" and np = "''/home/user/notes.txt''"
        and files = "Map.empty(''/home/user/notes.txt'' \<mapsto> File)"
        and fault = None and r = None] v2
    by simp
  have c: "fst (createDirectory ''/home/user'' ''/home/user'' None ''fresh'' (Some False)
          (snd ?first))
     = Returned [(''operation'', JStr ''create''),
                 (''directory_path'', JStr ''/home/user/fresh''),
                 (''created'', JBool False), (''existed'', JBool True)]"
    using createDirectory_idempotent [where homePath = "''/home/user''" and wd = "''/home/user''"
        and dirPath = "''fresh''" and np = "''/home/user/fresh''"
        and files = "Map.empty(''/home/user'' \<mapsto> Directory)" and fault = None
        and r = "Some False"
        and fault' = None and r' = "Some False"] v3 first
    by (metis fst_conv)
  from a b c show ?thesis by blast
qed

section \<open>Script execution\<close>

lemma console_note_call [simp]: "console (note_call c w) = console w"
  and disk_note_call [simp]: "disk (note_call c w) = disk w"
  and calls_note_call [simp]: "calls (note_call c w) = calls w @ [c]"
  by (simp_all add: note_call_def)


lemma cleanup_calls: "calls (cleanup os tf w) = calls w @ [Unlink tf]"
  by (auto simp: cleanup_def Let_def split: sum.splits)














lemma tempFile_lua:
  "script_tempFile os ''lua'' ''/tmp/claude-terminal-Ab12Cd'' = ''/tmp/claude-terminal-Ab12Cd/script.txt''"
  by (simp add: script_tempFile_def script_extension_def js_lookup_def SCRIPT_EXTENSIONS_def
      Object_prototype_members_def path_join_def normalize_def normalizeString_def
      normalize_step_def)


lemma js_lookup_Absent:
  "(js_lookup table k = Absent) = (k \<notin> set (map fst table) \<and> k \<notin> set Object_prototype_members)"
  by (cases "map_of table k") (auto simp: js_lookup_def map_of_eq_None_iff [symmetric])

lemma run_command_unsupported:
  assumes "js_lookup SCRIPT_COMMANDS (arg_interpreter args) = Absent"
  shows "run_command os args tf w =
     (Thrown (McpError InvalidParams (''Unsupported interpreter: '' @ arg_interpreter args)),
      cleanup os tf w)"
  using assms by (simp add: run_command_def buildScriptCommand_def)

lemma run_write_unsupported:
  assumes "js_lookup SCRIPT_COMMANDS (arg_interpreter args) = Absent"
  shows "(\<exists>e. fst (run_write os args content tempDir w) = Thrown e) \<and>
    calls (snd (run_write os args content tempDir w)) =
      calls w @ [WriteFile (script_tempFile os (arg_interpreter args) tempDir) content,
                 Unlink (script_tempFile os (arg_interpreter args) tempDir)] \<and>
    (os_write_fault os = None \<longrightarrow>
       fst (run_write os args content tempDir w) =
         Thrown (McpError InvalidParams (''Unsupported interpreter: '' @ arg_interpreter args)))"
proof (cases "os_write_fault os")
  case None
  then show ?thesis
    by (simp add: run_write_def Let_def run_command_unsupported [OF assms] cleanup_calls)
next
  case (Some p)
  obtain e created where "p = (e, created)" by (cases p)
  with Some show ?thesis
    by (simp add: run_write_def Let_def cleanup_calls)
qed




text \<open>
  C3, as stated, fails on the code: \<^verbatim>\<open>buildScriptCommand\<close> is called after
  \<^verbatim>\<open>mkdtempSync\<close> and \<^verbatim>\<open>writeFileSync\<close>.  For the interpreter \<open>lua\<close> the handler
  makes the temporary directory, writes the script to \<open>script.txt\<close> in it, and only
  then throws; the \<^verbatim>\<open>finally\<close> block unlinks the file.
\<close>

theorem unsupported_interpreter_counterexample:
  "fst (ExecuteScriptTool_run \<lparr>os_tmpdir = ''/tmp'', os_mkdtemp = Inr ''/tmp/claude-terminal-Ab12Cd'',
        os_write_fault = None, os_exec = (\<lambda>c opts files. (Inr (''hello'', []), files)),
        os_unlink_fault = None, os_cwd = ''/home/user'', os_env = [],
        os_member_text = (\<lambda>m. m), os_member_call = (\<lambda>m p. Inl (Error ''TypeError''))\<rparr> \<lparr>arg_script_content = Some ''print(1)'', arg_interpreter = ''lua'',
        arg_working_directory = None, arg_timeout = None\<rparr> \<lparr>disk = Map.empty, console = [], calls = []\<rparr>)
     = Thrown (McpError InvalidParams ''Unsupported interpreter: lua'') \<and>
   calls (snd (ExecuteScriptTool_run \<lparr>os_tmpdir = ''/tmp'', os_mkdtemp = Inr ''/tmp/claude-terminal-Ab12Cd'',
        os_write_fault = None, os_exec = (\<lambda>c opts files. (Inr (''hello'', []), files)),
        os_unlink_fault = None, os_cwd = ''/home/user'', os_env = [],
        os_member_text = (\<lambda>m. m), os_member_call = (\<lambda>m p. Inl (Error ''TypeError''))\<rparr> \<lparr>arg_script_content = Some ''print(1)'', arg_interpreter = ''lua'',
        arg_working_directory = None, arg_timeout = None\<rparr> \<lparr>disk = Map.empty, console = [], calls = []\<rparr>))
     = [Mkdtemp ''/tmp/claude-terminal-'',
        WriteFile ''/tmp/claude-terminal-Ab12Cd/script.txt'' ''print(1)'',
        Unlink ''/tmp/claude-terminal-Ab12Cd/script.txt'']"
proof -
  have p: "path_join ''/tmp'' ''claude-terminal-'' = ''/tmp/claude-terminal-''"
    by (simp add: path_join_def normalize_def normalizeString_def normalize_step_def)
  show ?thesis
    by (simp add: ExecuteScriptTool_run_def run_write_def run_command_def
        buildScriptCommand_def js_lookup_def SCRIPT_COMMANDS_def Object_prototype_members_def
        tempFile_lua cleanup_def unlinkSync_def Let_def p note_call_def)
qed


text \<open>
  C3, amended: for every invocation with script content whose interpreter is neither a
  key of the command table nor the name of a member inherited from
  \<^verbatim>\<open>Object.prototype\<close>, the handler throws and never runs a command; when the
  temporary directory and the script file can be created, it creates them first, then
  throws the \<^verbatim>\<open>McpError\<close> \<open>InvalidParams\<close> naming the interpreter, unlinks the file on
  the way out, and the dispatch wrapper re-raises that error.
\<close>

theorem unsupported_interpreter_fails:
  "arg_interpreter args \<notin> set (map fst SCRIPT_COMMANDS) \<and>
   arg_interpreter args \<notin> set Object_prototype_members \<and>
   arg_script_content args = Some content \<and> content \<noteq> [] \<longrightarrow>
     (\<exists>e. fst (ExecuteScriptTool_run os args w) = Thrown e) \<and>
     (\<exists>cs. calls (snd (ExecuteScriptTool_run os args w)) = calls w @ cs \<and>
           (\<forall>c. Exec c \<notin> set cs)) \<and>
     (\<forall>tempDir. os_mkdtemp os = Inr tempDir \<and> os_write_fault os = None \<longrightarrow>
        fst (ExecuteScriptTool_run os args w) =
          Thrown (McpError InvalidParams (''Unsupported interpreter: '' @ arg_interpreter args)) \<and>
        calls (snd (ExecuteScriptTool_run os args w)) =
          calls w @ [Mkdtemp (path_join (os_tmpdir os) ''claude-terminal-''),
                     WriteFile (script_tempFile os (arg_interpreter args) tempDir) content,
                     Unlink (script_tempFile os (arg_interpreter args) tempDir)] \<and>
        execute (\<lambda>a. fst (ExecuteScriptTool_run os args w)) a t =
          Inl (McpError InvalidParams (''Unsupported interpreter: '' @ arg_interpreter args)))"
proof
  assume a: "arg_interpreter args \<notin> set (map fst SCRIPT_COMMANDS) \<and>
   arg_interpreter args \<notin> set Object_prototype_members \<and>
   arg_script_content args = Some content \<and> content \<noteq> []"
  then have absent: "js_lookup SCRIPT_COMMANDS (arg_interpreter args) = Absent"
    by (simp add: js_lookup_Absent)
  let ?w1 = "note_call (Mkdtemp (path_join (os_tmpdir os) ''claude-terminal-'')) w"
  have run: "ExecuteScriptTool_run os args w =
      (case os_mkdtemp os of
         Inl e \<Rightarrow> (Thrown e, ?w1)
       | Inr tempDir \<Rightarrow>
           run_write os args content tempDir (?w1\<lparr>disk := (disk ?w1)(tempDir \<mapsto> Directory)\<rparr>))"
    using a by (simp add: ExecuteScriptTool_run_def Let_def)
  show "(\<exists>e. fst (ExecuteScriptTool_run os args w) = Thrown e) \<and>
     (\<exists>cs. calls (snd (ExecuteScriptTool_run os args w)) = calls w @ cs \<and>
           (\<forall>c. Exec c \<notin> set cs)) \<and>
     (\<forall>tempDir. os_mkdtemp os = Inr tempDir \<and> os_write_fault os = None \<longrightarrow>
        fst (ExecuteScriptTool_run os args w) =
          Thrown (McpError InvalidParams (''Unsupported interpreter: '' @ arg_interpreter args)) \<and>
        calls (snd (ExecuteScriptTool_run os args w)) =
          calls w @ [Mkdtemp (path_join (os_tmpdir os) ''claude-terminal-''),
                     WriteFile (script_tempFile os (arg_interpreter args) tempDir) content,
                     Unlink (script_tempFile os (arg_interpreter args) tempDir)] \<and>
        execute (\<lambda>a. fst (ExecuteScriptTool_run os args w)) a t =
          Inl (McpError InvalidParams (''Unsupported interpreter: '' @ arg_interpreter args)))"
  proof (cases "os_mkdtemp os")
    case (Inl e)
    then show ?thesis by (simp add: run)
  next
    case (Inr tempDir)
    let ?w2 = "?w1\<lparr>disk := (disk ?w1)(tempDir \<mapsto> Directory)\<rparr>"
    note rw = run_write_unsupported [OF absent, of os content tempDir ?w2]
    have r: "ExecuteScriptTool_run os args w = run_write os args content tempDir ?w2"
      using Inr by (simp add: run)
    show ?thesis
      using rw Inr by (simp add: r execute_def McpError_def)
  qed
qed

theorem unsupported_interpreter_fails_witness:
  "fst (ExecuteScriptTool_run \<lparr>os_tmpdir = ''/tmp'', os_mkdtemp = Inr ''/tmp/claude-terminal-Ab12Cd'',
        os_write_fault = None, os_exec = (\<lambda>c opts files. (Inr (''hello'', []), files)),
        os_unlink_fault = None, os_cwd = ''/home/user'', os_env = [],
        os_member_text = (\<lambda>m. m), os_member_call = (\<lambda>m p. Inl (Error ''TypeError''))\<rparr> \<lparr>arg_script_content = Some ''print(1)'', arg_interpreter = ''rust'',
        arg_working_directory = None, arg_timeout = None\<rparr> \<lparr>disk = Map.empty, console = [], calls = []\<rparr>)
     = Thrown (McpError InvalidParams ''Unsupported interpreter: rust'') \<and>
   execute (\<lambda>a. fst (ExecuteScriptTool_run \<lparr>os_tmpdir = ''/tmp'', os_mkdtemp = Inr ''/tmp/claude-terminal-Ab12Cd'',
        os_write_fault = None, os_exec = (\<lambda>c opts files. (Inr (''hello'', []), files)),
        os_unlink_fault = None, os_cwd = ''/home/user'', os_env = [],
        os_member_text = (\<lambda>m. m), os_member_call = (\<lambda>m p. Inl (Error ''TypeError''))\<rparr> \<lparr>arg_script_content = Some ''print(1)'', arg_interpreter = ''rust'',
        arg_working_directory = None, arg_timeout = None\<rparr> \<lparr>disk = Map.empty, console = [], calls = []\<rparr>)) [] 3
     = Inl (McpError InvalidParams ''Unsupported interpreter: rust'')"
proof -
  let ?os = "\<lparr>os_tmpdir = ''/tmp'', os_mkdtemp = Inr ''/tmp/claude-terminal-Ab12Cd'',
        os_write_fault = None, os_exec = (\<lambda>c opts files. (Inr (''hello'', []), files)),
        os_unlink_fault = None, os_cwd = ''/home/user'', os_env = [],
        os_member_text = (\<lambda>m. m), os_member_call = (\<lambda>m p. Inl (Error ''TypeError''))\<rparr>"
  let ?args = "\<lparr>arg_script_content = Some ''print(1)'', arg_interpreter = ''rust'',
        arg_working_directory = None, arg_timeout = None\<rparr>"
  have hyp: "arg_interpreter ?args \<notin> set (map fst SCRIPT_COMMANDS) \<and>
      arg_interpreter ?args \<notin> set Object_prototype_members \<and>
      arg_script_content ?args = Some ''print(1)'' \<and> ''print(1)'' \<noteq> []"
    by (simp add: SCRIPT_COMMANDS_def Object_prototype_members_def)
  have os: "os_mkdtemp ?os = Inr ''/tmp/claude-terminal-Ab12Cd'' \<and> os_write_fault ?os = None"
    by simp
  note t = unsupported_interpreter_fails [where os = ?os and args = ?args and w = "\<lparr>disk = Map.empty, console = [], calls = []\<rparr>"
      and content = "''print(1)''" and a = "[]" and t = 3, THEN mp, OF hyp,
      THEN conjunct2, THEN conjunct2, THEN spec, of "''/tmp/claude-terminal-Ab12Cd''",
      THEN mp, OF os]
  have A: "fst (ExecuteScriptTool_run ?os ?args \<lparr>disk = Map.empty, console = [], calls = []\<rparr>)
     = Thrown (McpError InvalidParams ''Unsupported interpreter: rust'')"
    using t [THEN conjunct1] by simp
  have B: "execute (\<lambda>a. fst (ExecuteScriptTool_run ?os ?args \<lparr>disk = Map.empty, console = [], calls = []\<rparr>)) [] 3
     = Inl (McpError InvalidParams ''Unsupported interpreter: rust'')"
    using t [THEN conjunct2, THEN conjunct2] by simp
  show ?thesis by (rule conjI [OF A B])
qed

section \<open>Process listing\<close>



lemma js_slice0_take: "0 \<le> e \<Longrightarrow> js_slice0 xs e = take (nat e) xs"
  by (simp add: js_slice0_def)





end
